theory Spec2Isabelle
  imports Main
begin

section \<open>Values exchanged with the JavaScript platform\<close>

text \<open>
  Decoded JSON values, as \<open>JSON.parse\<close> produces them. Numbers are modelled as integers.
  An object is its list of members in order; a property read takes the first member with
  that name.
\<close>

datatype json =
    JNull
  | JBool bool
  | JNum int
  | JStr string
  | JArr "json list"
  | JObj "(string \<times> json) list"

text \<open>
  \<open>get_field m k\<close> is the property read \<open>m.k\<close> on a non-null value; \<open>None\<close> stands for
  \<open>undefined\<close>. (The read on \<open>null\<close> throws, which each caller handles itself.)
\<close>

fun get_field :: "json \<Rightarrow> string \<Rightarrow> json option" where
  "get_field (JObj fs) k = map_of fs k"
| "get_field _ k = None"

text \<open>JavaScript truthiness, as used by \<open>!x\<close>, \<open>x || y\<close> and \<open>if (x)\<close>.\<close>

fun truthy :: "json \<Rightarrow> bool" where
  "truthy JNull = False"
| "truthy (JBool b) = b"
| "truthy (JNum n) = (n \<noteq> 0)"
| "truthy (JStr s) = (s \<noteq> [])"
| "truthy (JArr xs) = True"
| "truthy (JObj fs) = True"

fun truthy_opt :: "json option \<Rightarrow> bool" where
  "truthy_opt None = False"
| "truthy_opt (Some j) = truthy j"

datatype exn = TypeError | SyntaxError | InvalidStateError

datatype ready_state = CONNECTING | OPEN | CLOSING | CLOSED

text \<open>
  The URL built by \<open>connect\<close>: base, token, and the session id when one is given
  (\<open>`${baseUrl}/ws/speak?token=${token}&session_id=${sessionId}`\<close>).
\<close>

datatype ws_url = WsUrl string string "json option"

record websocket =
  url :: ws_url
  readyState :: ready_state

text \<open>
  The platform functions the client calls. \<open>json_parse\<close> is \<open>JSON.parse\<close> (\<open>None\<close> when it
  throws), \<open>json_stringify\<close> is \<open>JSON.stringify\<close> (\<open>None\<close> when it throws),
  \<open>socket_send_throws\<close> tells whether \<open>WebSocket.send\<close> throws on a text,
  \<open>websocket_ctor_throws\<close> whether \<open>new WebSocket(url)\<close> throws, and \<open>REACT_APP_WS_URL\<close> is
  the environment variable of that name.
\<close>

record env =
  json_parse :: "string \<Rightarrow> json option"
  json_stringify :: "json \<Rightarrow> string option"
  socket_send_throws :: "string \<Rightarrow> bool"
  websocket_ctor_throws :: "ws_url \<Rightarrow> bool"
  REACT_APP_WS_URL :: "string option"

section \<open>WSClient\<close>

text \<open>
  The argument an \<open>onError\<close> handler receives: the socket's error event, the exception
  caught by \<open>connect\<close>, or \<open>new Error(message.message || 'Server error')\<close>.
\<close>

datatype error_arg = ErrorEvent | CaughtError exn | ServerError json

text \<open>A call of one of the handler fields of the client, with its argument.\<close>

datatype callback =
    CbOpen
  | CbClose nat
  | CbError error_arg
  | CbAck json
  | CbInterim json
  | CbProcessing json
  | CbFinal json
  | CbMessage json

text \<open>
  What a method of the client does to the outside, in order: handler calls, texts handed
  to \<open>ws.send\<close>, sockets created and closed, timers set and cleared, console output.
\<close>

datatype effect =
    Call callback
  | Transmit string
  | NewSocket ws_url
  | SocketClose nat string
  | SetTimeout nat
  | SetInterval nat
  | ClearInterval
  | ConsoleLog string
  | ConsoleError string
  | ConsoleWarn string

text \<open>
  The fields of the class. A handler field is modelled by whether a handler is installed;
  \<open>heartbeatInterval\<close> by whether it holds a timer handle.
\<close>

record ws_client =
  ws :: "websocket option"
  reconnectAttempts :: nat
  maxReconnectAttempts :: nat
  reconnectDelay :: nat
  heartbeatInterval :: bool
  isConnected :: bool
  onOpen :: bool
  onClose :: bool
  onError :: bool
  onAck :: bool
  onInterim :: bool
  onProcessing :: bool
  onFinal :: bool
  onMessage :: bool
  sessionId :: "json option"
  token :: "string option"

definition new_WSClient :: ws_client where
  "new_WSClient =
     \<lparr> ws = None, reconnectAttempts = 0, maxReconnectAttempts = 5, reconnectDelay = 1000,
       heartbeatInterval = False, isConnected = False,
       onOpen = False, onClose = False, onError = False, onAck = False, onInterim = False,
       onProcessing = False, onFinal = False, onMessage = False,
       sessionId = None, token = None \<rparr>"

definition socket_live :: "ws_client \<Rightarrow> bool" where
  "socket_live c =
     (case ws c of None \<Rightarrow> False
      | Some s \<Rightarrow> readyState s = CONNECTING \<or> readyState s = OPEN)"

definition or_null :: "json option \<Rightarrow> json option" where
  "or_null sid = (if truthy_opt sid then sid else None)"

definition connect :: "env \<Rightarrow> string \<Rightarrow> json option \<Rightarrow> ws_client \<Rightarrow> ws_client \<times> effect list" where
  "connect e tok sid c =
     (if socket_live c then (c, [ConsoleLog ''WebSocket already connecting or connected''])
      else
        let c1 = c\<lparr> token := Some tok, sessionId := or_null sid \<rparr>;
            baseUrl = (case REACT_APP_WS_URL e of
                         None \<Rightarrow> ''ws://localhost:8000''
                       | Some u \<Rightarrow> if u \<noteq> [] then u else ''ws://localhost:8000'');
            wsUrl = WsUrl baseUrl tok (or_null sid)
        in if websocket_ctor_throws e wsUrl
           then (c1, ConsoleError ''Failed to create WebSocket connection:''
                     # (if onError c1 then [Call (CbError (CaughtError SyntaxError))] else []))
           else (c1\<lparr> ws := Some \<lparr> url = wsUrl, readyState = CONNECTING \<rparr> \<rparr>, [NewSocket wsUrl]))"

definition startHeartbeat :: "ws_client \<Rightarrow> ws_client \<times> effect list" where
  "startHeartbeat c = (c\<lparr> heartbeatInterval := True \<rparr>, [SetInterval 30000])"

definition stopHeartbeat :: "ws_client \<Rightarrow> ws_client \<times> effect list" where
  "stopHeartbeat c =
     (if heartbeatInterval c then (c\<lparr> heartbeatInterval := False \<rparr>, [ClearInterval])
      else (c, []))"

definition attemptReconnect :: "ws_client \<Rightarrow> ws_client \<times> effect list" where
  "attemptReconnect c =
     (let c1 = c\<lparr> reconnectAttempts := reconnectAttempts c + 1 \<rparr>;
          delay = reconnectDelay c1 * 2 ^ (reconnectAttempts c1 - 1)
      in (c1, [ConsoleLog ''Attempting to reconnect'', SetTimeout delay]))"

text \<open>The callback that \<open>attemptReconnect\<close> hands to \<open>setTimeout\<close>.\<close>

definition reconnect_timeout :: "env \<Rightarrow> ws_client \<Rightarrow> ws_client \<times> effect list" where
  "reconnect_timeout e c =
     (case token c of
        None \<Rightarrow> (c, [])
      | Some t \<Rightarrow> if t \<noteq> [] then connect e t (or_null (sessionId c)) c else (c, []))"

text \<open>The handlers that \<open>setupEventHandlers\<close> attaches to the socket.\<close>

definition ws_onopen :: "ws_client \<Rightarrow> ws_client \<times> effect list" where
  "ws_onopen c =
     (let c1 = c\<lparr> isConnected := True, reconnectAttempts := 0 \<rparr>;
          (c2, hb) = startHeartbeat c1
      in (c2, ConsoleLog ''WebSocket connected'' # hb @ (if onOpen c2 then [Call CbOpen] else [])))"

definition ws_onclose :: "nat \<Rightarrow> ws_client \<Rightarrow> ws_client \<times> effect list" where
  "ws_onclose code c =
     (let c1 = c\<lparr> isConnected := False \<rparr>;
          (c2, hb) = stopHeartbeat c1;
          pre = ConsoleLog ''WebSocket disconnected:'' # hb
                @ (if onClose c2 then [Call (CbClose code)] else [])
      in if code \<noteq> 1000 \<and> reconnectAttempts c2 < maxReconnectAttempts c2
         then (let (c3, re) = attemptReconnect c2 in (c3, pre @ re))
         else (c2, pre))"

definition ws_onerror :: "ws_client \<Rightarrow> ws_client \<times> effect list" where
  "ws_onerror c =
     (c, ConsoleError ''WebSocket error:'' # (if onError c then [Call (CbError ErrorEvent)] else []))"

text \<open>
  \<open>handleMessage\<close>. The first component of the result is the exception it throws, if any:
  reading \<open>message.type\<close> of \<open>null\<close> is a TypeError, raised after the \<open>onMessage\<close> handler
  has run.
\<close>

definition handleMessage :: "json \<Rightarrow> ws_client \<Rightarrow> exn option \<times> ws_client \<times> effect list" where
  "handleMessage message c =
     (let pre = (if onMessage c then [Call (CbMessage message)] else [])
      in if message = JNull then (Some TypeError, c, pre)
         else if get_field message ''type'' = Some (JStr ''ack'')
         then (let c1 = c\<lparr> sessionId := get_field message ''session_id'' \<rparr>
               in (None, c1, pre @ (if onAck c1 then [Call (CbAck message)] else [])))
         else if get_field message ''type'' = Some (JStr ''interim'')
         then (None, c, pre @ (if onInterim c then [Call (CbInterim message)] else []))
         else if get_field message ''type'' = Some (JStr ''processing'')
         then (None, c, pre @ (if onProcessing c then [Call (CbProcessing message)] else []))
         else if get_field message ''type'' = Some (JStr ''final'')
         then (None, c, pre @ (if onFinal c then [Call (CbFinal message)] else []))
         else if get_field message ''type'' = Some (JStr ''error'')
         then (None, c, pre @ ConsoleError ''WebSocket server error:''
                 # (if onError c
                    then [Call (CbError (ServerError
                            (if truthy_opt (get_field message ''message'')
                             then the (get_field message ''message'')
                             else JStr ''Server error'')))]
                    else []))
         else (None, c, pre @ [ConsoleLog ''Unknown message type:'']))"

definition ws_onmessage :: "env \<Rightarrow> string \<Rightarrow> ws_client \<Rightarrow> ws_client \<times> effect list" where
  "ws_onmessage e data c =
     (case json_parse e data of
        None \<Rightarrow> (c, [ConsoleError ''Failed to parse WebSocket message:''])
      | Some message \<Rightarrow>
          (case handleMessage message c of
             (None, c1, effs) \<Rightarrow> (c1, effs)
           | (Some x, c1, effs) \<Rightarrow> (c1, effs @ [ConsoleError ''Failed to parse WebSocket message:''])))"

text \<open>
  \<open>this.ws.send(JSON.stringify(message))\<close>: the wire text, or the exception thrown by
  either call.
\<close>

definition ws_send :: "env \<Rightarrow> json \<Rightarrow> exn + string" where
  "ws_send e message =
     (case json_stringify e message of
        None \<Rightarrow> Inl TypeError
      | Some text \<Rightarrow> if socket_send_throws e text then Inl InvalidStateError else Inr text)"

text \<open>
  \<open>sendMessage\<close> returns a boolean or propagates an exception (\<open>Inl\<close>); it changes no
  field of the client.
\<close>

definition sendMessage :: "env \<Rightarrow> json \<Rightarrow> ws_client \<Rightarrow> (exn + bool) \<times> effect list" where
  "sendMessage e message c =
     (if \<not> isConnected c \<or> ws c = None \<or> map_option readyState (ws c) \<noteq> Some OPEN
      then (Inr False, [ConsoleError ''WebSocket not connected, cannot send message''])
      else (case ws_send e message of
              Inr text \<Rightarrow> (Inr True, [Transmit text])
            | Inl x \<Rightarrow> (Inr False, [ConsoleError ''Failed to send WebSocket message:''])))"

definition startSession :: "env \<Rightarrow> json \<Rightarrow> ws_client \<Rightarrow> (exn + bool) \<times> effect list" where
  "startSession e config c =
     sendMessage e (JObj [(''type'', JStr ''start''), (''config'', config)]) c"

definition sendAudioChunk :: "env \<Rightarrow> string \<Rightarrow> int \<Rightarrow> ws_client \<Rightarrow> (exn + bool) \<times> effect list" where
  "sendAudioChunk e audioData sequence c =
     sendMessage e (JObj [(''type'', JStr ''audio''), (''sequence'', JNum sequence),
                          (''payload_b64'', JStr audioData)]) c"

definition stopSession :: "env \<Rightarrow> ws_client \<Rightarrow> (exn + bool) \<times> effect list" where
  "stopSession e c =
     (case sessionId c of
        None \<Rightarrow> (Inr False, [ConsoleWarn ''No session ID available for stop message''])
      | Some sid \<Rightarrow>
          if \<not> truthy sid
          then (Inr False, [ConsoleWarn ''No session ID available for stop message''])
          else sendMessage e (JObj [(''type'', JStr ''stop''), (''session_id'', sid)]) c)"

definition ping :: "env \<Rightarrow> ws_client \<Rightarrow> (exn + bool) \<times> effect list" where
  "ping e c = sendMessage e (JObj [(''type'', JStr ''ping'')]) c"

text \<open>The callback that \<open>startHeartbeat\<close> hands to \<open>setInterval\<close>.\<close>

definition heartbeat_tick :: "env \<Rightarrow> ws_client \<Rightarrow> effect list" where
  "heartbeat_tick e c = (if isConnected c then snd (ping e c) else [])"

definition disconnect :: "ws_client \<Rightarrow> ws_client \<times> effect list" where
  "disconnect c =
     (let (c1, hb) = stopHeartbeat c;
          (c2, cl) = (case ws c1 of
                        None \<Rightarrow> (c1, [])
                      | Some s \<Rightarrow> (c1\<lparr> ws := None \<rparr>, [SocketClose 1000 ''Client disconnecting'']))
      in (c2\<lparr> isConnected := False, sessionId := None, reconnectAttempts := 0 \<rparr>, hb @ cl))"

subsection \<open>The client as a transition system\<close>

text \<open>
  What reaches the client from the browser: the four socket events, and the two timer
  callbacks the client itself registers.
\<close>

datatype socket_event =
    SockOpen
  | SockClose nat
  | SockError
  | SockMessage string
  | HeartbeatTick
  | ReconnectTimeout

datatype client_op =
    Connect string "json option"
  | StartSession json
  | SendAudioChunk string int
  | StopSession
  | Disconnect
  | Event socket_event

text \<open>The browser sets the socket's \<open>readyState\<close> before it fires \<open>open\<close> or \<open>close\<close>.\<close>

definition set_readyState :: "ready_state \<Rightarrow> ws_client \<Rightarrow> ws_client" where
  "set_readyState r c = c\<lparr> ws := map_option (\<lambda>s. s\<lparr> readyState := r \<rparr>) (ws c) \<rparr>"

fun socket_step :: "env \<Rightarrow> socket_event \<Rightarrow> ws_client \<Rightarrow> ws_client \<times> effect list" where
  "socket_step e SockOpen c = ws_onopen (set_readyState OPEN c)"
| "socket_step e (SockClose code) c = ws_onclose code (set_readyState CLOSED c)"
| "socket_step e SockError c = ws_onerror c"
| "socket_step e (SockMessage data) c = ws_onmessage e data c"
| "socket_step e HeartbeatTick c = (c, if heartbeatInterval c then heartbeat_tick e c else [])"
| "socket_step e ReconnectTimeout c = reconnect_timeout e c"

fun client_step :: "env \<Rightarrow> client_op \<Rightarrow> ws_client \<Rightarrow> ws_client \<times> effect list" where
  "client_step e (Connect tok sid) c = connect e tok sid c"
| "client_step e (StartSession config) c = (c, snd (startSession e config c))"
| "client_step e (SendAudioChunk audioData sequence) c = (c, snd (sendAudioChunk e audioData sequence c))"
| "client_step e StopSession c = (c, snd (stopSession e c))"
| "client_step e Disconnect c = disconnect c"
| "client_step e (Event ev) c = socket_step e ev c"

fun run_client :: "env \<Rightarrow> client_op list \<Rightarrow> ws_client \<Rightarrow> ws_client \<times> effect list" where
  "run_client e [] c = (c, [])"
| "run_client e (op # ops) c =
     (let (c1, effs1) = client_step e op c;
          (c2, effs2) = run_client e ops c1
      in (c2, effs1 @ effs2))"

text \<open>The delays of the reconnections scheduled, and the texts sent, in order.\<close>

fun timeouts :: "effect list \<Rightarrow> nat list" where
  "timeouts [] = []"
| "timeouts (SetTimeout d # effs) = d # timeouts effs"
| "timeouts (x # effs) = timeouts effs"

fun transmitted :: "effect list \<Rightarrow> string list" where
  "transmitted [] = []"
| "transmitted (Transmit text # effs) = text # transmitted effs"
| "transmitted (x # effs) = transmitted effs"

fun calls :: "effect list \<Rightarrow> callback list" where
  "calls [] = []"
| "calls (Call cb # effs) = cb # calls effs"
| "calls (x # effs) = calls effs"

text \<open>
  A run of consecutive failed connections: each socket closes with the given code and
  the reconnection timer, when one was set, then fires.
\<close>

fun failed_attempts :: "nat list \<Rightarrow> client_op list" where
  "failed_attempts [] = []"
| "failed_attempts (code # codes) =
     Event (SockClose code) # Event ReconnectTimeout # failed_attempts codes"

text \<open>The four shapes of message object that the methods hand to \<open>sendMessage\<close>.\<close>

fun is_start_message :: "json \<Rightarrow> bool" where
  "is_start_message (JObj [(k1, JStr t), (k2, config)]) =
     (k1 = ''type'' \<and> t = ''start'' \<and> k2 = ''config'')"
| "is_start_message _ = False"

fun is_audio_message :: "json \<Rightarrow> bool" where
  "is_audio_message (JObj [(k1, JStr t), (k2, JNum sequence), (k3, JStr payload)]) =
     (k1 = ''type'' \<and> t = ''audio'' \<and> k2 = ''sequence'' \<and> k3 = ''payload_b64'')"
| "is_audio_message _ = False"

fun is_stop_message :: "json \<Rightarrow> bool" where
  "is_stop_message (JObj [(k1, JStr t), (k2, sid)]) =
     (k1 = ''type'' \<and> t = ''stop'' \<and> k2 = ''session_id'' \<and> truthy sid)"
| "is_stop_message _ = False"

fun is_ping_message :: "json \<Rightarrow> bool" where
  "is_ping_message (JObj [(k1, JStr t)]) = (k1 = ''type'' \<and> t = ''ping'')"
| "is_ping_message _ = False"

definition is_client_message :: "json \<Rightarrow> bool" where
  "is_client_message m =
     (is_start_message m \<or> is_audio_message m \<or> is_stop_message m \<or> is_ping_message m)"

text \<open>The message kinds that \<open>handleMessage\<close> has a case for.\<close>

definition known_types :: "string list" where
  "known_types = [''ack'', ''interim'', ''processing'', ''final'', ''error'']"

definition has_known_type :: "json \<Rightarrow> bool" where
  "has_known_type m = (case get_field m ''type'' of Some (JStr t) \<Rightarrow> t \<in> set known_types | _ \<Rightarrow> False)"

text \<open>The same handler call, with another message object as its argument.\<close>

fun with_message :: "json \<Rightarrow> effect \<Rightarrow> effect" where
  "with_message m (Call (CbAck x)) = Call (CbAck m)"
| "with_message m (Call (CbInterim x)) = Call (CbInterim m)"
| "with_message m (Call (CbProcessing x)) = Call (CbProcessing m)"
| "with_message m (Call (CbFinal x)) = Call (CbFinal m)"
| "with_message m (Call (CbMessage x)) = Call (CbMessage m)"
| "with_message m eff = eff"

subsection \<open>An example platform\<close>

text \<open>
  A platform to run the model on: a serialiser for the JSON values above (strings are
  written without escapes), a parser that knows the frames listed in \<open>example_frames\<close>
  and fails on every other text, and a socket and a constructor that never throw.
\<close>

fun digits :: "nat \<Rightarrow> string" where
  "digits n =
     (if n < 10 then [''0123456789'' ! n]
      else digits (n div 10) @ [''0123456789'' ! (n mod 10)])"

declare digits.simps [simp del]

fun join :: "string \<Rightarrow> string list \<Rightarrow> string" where
  "join sep [] = []"
| "join sep [x] = x"
| "join sep (x # y # ys) = x @ sep @ join sep (y # ys)"

definition quote :: "string \<Rightarrow> string" where
  "quote s = [CHR 0x22] @ s @ [CHR 0x22]"

fun show_json :: "json \<Rightarrow> string" where
  "show_json JNull = ''null''"
| "show_json (JBool b) = (if b then ''true'' else ''false'')"
| "show_json (JNum n) = (if n < 0 then ''-'' @ digits (nat (- n)) else digits (nat n))"
| "show_json (JStr s) = quote s"
| "show_json (JArr xs) = ''['' @ join '','' (map show_json xs) @ '']''"
| "show_json (JObj fs) =
     ''{'' @ join '','' (map (\<lambda>p. quote (fst p) @ '':'' @ show_json (snd p)) fs) @ ''}''"

definition ack_s1 :: json where
  "ack_s1 = JObj [(''type'', JStr ''ack''), (''session_id'', JStr ''s1''), (''max_duration'', JNum 2)]"

definition final_s1 :: json where
  "final_s1 = JObj [(''type'', JStr ''final''), (''session_id'', JStr ''s1''),
                    (''transcript'', JStr ''I went to Paris'')]"

definition processing_s1 :: json where
  "processing_s1 = JObj [(''type'', JStr ''processing''), (''session_id'', JStr ''s1''),
                         (''stage'', JStr ''evaluation'')]"

definition pong :: json where
  "pong = JObj [(''type'', JStr ''pong'')]"

definition example_frames :: "json list" where
  "example_frames = [ack_s1, final_s1, processing_s1, pong]"

definition example_env :: env where
  "example_env =
     \<lparr> json_parse = map_of (map (\<lambda>j. (show_json j, j)) example_frames),
       json_stringify = (\<lambda>j. Some (show_json j)),
       socket_send_throws = (\<lambda>text. False),
       websocket_ctor_throws = (\<lambda>u. False),
       REACT_APP_WS_URL = None \<rparr>"

text \<open>A platform on which \<open>JSON.stringify\<close> throws, and one on which \<open>send\<close> throws.\<close>

definition unserialisable_env :: env where
  "unserialisable_env = example_env\<lparr> json_stringify := (\<lambda>j. None) \<rparr>"

definition broken_socket_env :: env where
  "broken_socket_env = example_env\<lparr> socket_send_throws := (\<lambda>text. True) \<rparr>"

text \<open>A client whose socket is open, with every handler installed and a session id.\<close>

definition open_client :: ws_client where
  "open_client =
     new_WSClient\<lparr> ws := Some \<lparr> url = WsUrl ''ws://localhost:8000'' ''tok'' None, readyState = OPEN \<rparr>,
                   isConnected := True, heartbeatInterval := True,
                   onOpen := True, onClose := True, onError := True, onAck := True,
                   onInterim := True, onProcessing := True, onFinal := True, onMessage := True,
                   sessionId := Some (JStr ''s1''), token := Some ''tok'' \<rparr>"

section \<open>SpeakSession\<close>

text \<open>
  The component is a function that React calls once per render. The \<open>const\<close> bindings of
  one call (\<open>sessionState\<close>, \<open>sequenceNumber\<close>, \<open>isRecording\<close>) are fixed for every closure
  created in that call; a closure that outlives the render keeps reading them. The
  \<open>render\<close> record is that closure environment. Refs (\<open>wsClientRef\<close>, \<open>timerRef\<close>, the
  recorder's refs) are shared by all renders and are fields of the component state.
\<close>

datatype session_state = Idle | Connecting | Connected | Recording | Processing | Completed | Error

record render =
  r_sessionState :: session_state
  r_sequenceNumber :: int
  r_isRecording :: bool

text \<open>
  The props, and the token from \<open>useAuth\<close>. A callback prop is modelled by whether it is
  given.
\<close>

record props =
  prop_config :: json
  prop_onSessionComplete :: bool
  prop_onError :: bool
  prop_autoStart :: bool
  auth_token :: "string option"

text \<open>The \<open>state\<close> attribute of a \<open>MediaRecorder\<close>.\<close>

datatype recorder = RecorderInactive | RecorderRecording

text \<open>
  The state of a mounted component: the \<open>useState\<close> cells, the refs, the state of
  \<open>useMediaRecorder\<close>, and the timers and promises that are pending. \<open>handlersRender\<close> is
  the render whose closures \<open>setupWebSocket\<close> installed on the client in \<open>wsClientRef\<close>;
  \<open>intervals\<close> lists the running \<open>setInterval\<close> timers of \<open>startTimer\<close> with the render
  of each callback; \<open>onDataAvailableRef\<close> holds the render of the \<open>handleAudioData\<close>
  closure passed to \<open>startRecording\<close>.
\<close>

record component =
  sessionState :: session_state
  currentTranscript :: json
  finalResult :: "json option"
  connectionStatus :: string
  timeRemaining :: int
  sequenceNumber :: int
  wsClientRef :: "ws_client option"
  handlersRender :: render
  timerRef :: "nat option"
  intervals :: "(nat \<times> render) list"
  nextTimerId :: nat
  startPending :: bool
  isRecording :: bool
  mediaRecorderRef :: "recorder option"
  streamRef :: bool
  onDataAvailableRef :: "render option"
  mediaPending :: bool

datatype ui_effect =
    Client effect
  | PropOnSessionComplete json
  | PropOnError error_arg
  | GetUserMedia
  | RecorderStart
  | RecorderStop
  | TracksStop

definition current_render :: "component \<Rightarrow> render" where
  "current_render s =
     \<lparr> r_sessionState = sessionState s, r_sequenceNumber = sequenceNumber s,
       r_isRecording = isRecording s \<rparr>"

definition init_component :: component where
  "init_component =
     \<lparr> sessionState = Idle, currentTranscript = JStr [], finalResult = None,
       connectionStatus = ''DISCONNECTED'', timeRemaining = 0, sequenceNumber = 0,
       wsClientRef = None,
       handlersRender = \<lparr> r_sessionState = Idle, r_sequenceNumber = 0, r_isRecording = False \<rparr>,
       timerRef = None, intervals = [], nextTimerId = 1, startPending = False,
       isRecording = False, mediaRecorderRef = None, streamRef = False,
       onDataAvailableRef = None, mediaPending = False \<rparr>"

subsection \<open>useMediaRecorder\<close>

text \<open>
  \<open>startRecording\<close> stores the callback and awaits \<open>getUserMedia\<close>; the rest of its body runs
  when the promise resolves (\<open>media_granted\<close>).
\<close>

definition startRecording :: "render \<Rightarrow> component \<Rightarrow> component \<times> ui_effect list" where
  "startRecording handler s =
     (s\<lparr> onDataAvailableRef := Some handler, mediaPending := True \<rparr>, [GetUserMedia])"

definition media_granted :: "component \<Rightarrow> component \<times> ui_effect list" where
  "media_granted s =
     (if mediaPending s
      then (s\<lparr> mediaPending := False, streamRef := True,
                mediaRecorderRef := Some RecorderRecording, isRecording := True \<rparr>,
            [RecorderStart])
      else (s, []))"

text \<open>
  \<open>stopRecording\<close> is memoised on \<open>isRecording\<close>, so the one a render sees reads that
  render's \<open>isRecording\<close>. \<open>MediaRecorder.stop\<close> makes the recorder inactive and its
  \<open>onstop\<close> handler sets \<open>isRecording\<close> to false.
\<close>

definition stopRecording :: "render \<Rightarrow> component \<Rightarrow> component \<times> ui_effect list" where
  "stopRecording r s =
     (let (s1, effs1) =
            (if mediaRecorderRef s \<noteq> None \<and> r_isRecording r
             then (s\<lparr> mediaRecorderRef := Some RecorderInactive, isRecording := False \<rparr>,
                   [RecorderStop])
             else (s, []));
          (s2, effs2) =
            (if streamRef s1 then (s1\<lparr> streamRef := False \<rparr>, [TracksStop]) else (s1, []))
      in (s2, effs1 @ effs2))"

subsection \<open>The closures of one render\<close>

definition handleStopSession :: "env \<Rightarrow> render \<Rightarrow> component \<Rightarrow> component \<times> ui_effect list" where
  "handleStopSession e r s =
     (let s1 = (case timerRef s of
                  None \<Rightarrow> s
                | Some t \<Rightarrow> if t \<noteq> 0 then s\<lparr> intervals := filter (\<lambda>iv. fst iv \<noteq> t) (intervals s) \<rparr>
                            else s);
          (s2, effs2) = (if r_isRecording r then stopRecording r s1 else (s1, []));
          effs3 = (case wsClientRef s2 of
                     None \<Rightarrow> []
                   | Some c \<Rightarrow> map Client (snd (stopSession e c)))
      in (s2\<lparr> sessionState := Processing \<rparr>, effs2 @ effs3))"

text \<open>The callback that \<open>startTimer\<close> hands to \<open>setInterval\<close>, created in render \<open>r\<close>.\<close>

definition timer_tick :: "env \<Rightarrow> render \<Rightarrow> component \<Rightarrow> component \<times> ui_effect list" where
  "timer_tick e r s =
     (let newTime = timeRemaining s - 1
      in if newTime \<le> 0
         then (let (s1, effs) = handleStopSession e r s in (s1\<lparr> timeRemaining := 0 \<rparr>, effs))
         else (s\<lparr> timeRemaining := newTime \<rparr>, []))"

definition startTimer :: "render \<Rightarrow> component \<Rightarrow> component" where
  "startTimer r s =
     s\<lparr> timerRef := Some (nextTimerId s), intervals := intervals s @ [(nextTimerId s, r)],
        nextTimerId := Suc (nextTimerId s) \<rparr>"

definition handleAudioData :: "env \<Rightarrow> render \<Rightarrow> string \<Rightarrow> component \<Rightarrow> component \<times> ui_effect list" where
  "handleAudioData e r base64Data s =
     (case wsClientRef s of
        None \<Rightarrow> (s, [])
      | Some c \<Rightarrow>
          if r_sessionState r = Recording
          then (let currentSeq = r_sequenceNumber r + 1
                in (s\<lparr> sequenceNumber := currentSeq \<rparr>,
                    map Client (snd (sendAudioChunk e base64Data currentSeq c))))
          else (s, []))"

definition startAudioRecording :: "render \<Rightarrow> component \<Rightarrow> component \<times> ui_effect list" where
  "startAudioRecording r s =
     (let (s1, effs) = startRecording r s in (s1\<lparr> sessionState := Recording \<rparr>, effs))"

text \<open>
  \<open>message.max_duration || 60\<close>. The field is a number when present (\<open>WSAckMessage\<close>); any
  other value is read as absent.
\<close>

definition max_duration_or_60 :: "json \<Rightarrow> int" where
  "max_duration_or_60 message =
     (case get_field message ''max_duration'' of
        Some (JNum d) \<Rightarrow> if d \<noteq> 0 then d else 60
      | _ \<Rightarrow> 60)"

text \<open>The handlers that \<open>setupWebSocket\<close> installs on the client, created in render \<open>r\<close>.\<close>

definition session_onOpen :: "component \<Rightarrow> component" where
  "session_onOpen s = s\<lparr> connectionStatus := ''CONNECTED'', sessionState := Connected \<rparr>"

definition session_onClose :: "render \<Rightarrow> component \<Rightarrow> component" where
  "session_onClose r s =
     (let s1 = s\<lparr> connectionStatus := ''DISCONNECTED'' \<rparr>
      in if r_sessionState r \<noteq> Completed then s1\<lparr> sessionState := Error \<rparr> else s1)"

definition session_onError :: "props \<Rightarrow> error_arg \<Rightarrow> component \<Rightarrow> component \<times> ui_effect list" where
  "session_onError p err s =
     (s\<lparr> sessionState := Error \<rparr>, if prop_onError p then [PropOnError err] else [])"

definition session_onAck :: "render \<Rightarrow> json \<Rightarrow> component \<Rightarrow> component \<times> ui_effect list" where
  "session_onAck r message s =
     startAudioRecording r (startTimer r (s\<lparr> timeRemaining := max_duration_or_60 message \<rparr>))"

definition session_onInterim :: "json \<Rightarrow> component \<Rightarrow> component" where
  "session_onInterim message s =
     s\<lparr> currentTranscript :=
          (if truthy_opt (get_field message ''transcript'')
           then the (get_field message ''transcript'') else JStr []) \<rparr>"

definition session_onProcessing :: "component \<Rightarrow> component" where
  "session_onProcessing s =
     s\<lparr> sessionState := Processing, currentTranscript := JStr ''Processing your speech...'' \<rparr>"

definition session_onFinal :: "props \<Rightarrow> json \<Rightarrow> component \<Rightarrow> component \<times> ui_effect list" where
  "session_onFinal p message s =
     (s\<lparr> sessionState := Completed, finalResult := Some message \<rparr>,
      if prop_onSessionComplete p then [PropOnSessionComplete message] else [])"

text \<open>
  The client calls its handler fields while it handles a socket event. None of the
  handlers above reads or changes the client, so they are run on the calls the client
  made, in order, once its own step is done.
\<close>

fun run_callback :: "props \<Rightarrow> render \<Rightarrow> callback \<Rightarrow> component \<Rightarrow> component \<times> ui_effect list" where
  "run_callback p r CbOpen s = (session_onOpen s, [])"
| "run_callback p r (CbClose code) s = (session_onClose r s, [])"
| "run_callback p r (CbError err) s = session_onError p err s"
| "run_callback p r (CbAck message) s = session_onAck r message s"
| "run_callback p r (CbInterim message) s = (session_onInterim message s, [])"
| "run_callback p r (CbProcessing message) s = (session_onProcessing s, [])"
| "run_callback p r (CbFinal message) s = session_onFinal p message s"
| "run_callback p r (CbMessage message) s = (s, [])"

fun run_callbacks :: "props \<Rightarrow> render \<Rightarrow> callback list \<Rightarrow> component \<Rightarrow> component \<times> ui_effect list" where
  "run_callbacks p r [] s = (s, [])"
| "run_callbacks p r (cb # cbs) s =
     (let (s1, effs1) = run_callback p r cb s;
          (s2, effs2) = run_callbacks p r cbs s1
      in (s2, effs1 @ effs2))"

definition setupWebSocket :: "props \<Rightarrow> env \<Rightarrow> render \<Rightarrow> component \<Rightarrow> component \<times> ui_effect list" where
  "setupWebSocket p e r s =
     (case auth_token p of
        None \<Rightarrow> (s\<lparr> sessionState := Error \<rparr>, [])
      | Some t \<Rightarrow>
          if t = [] then (s\<lparr> sessionState := Error \<rparr>, [])
          else
            let wsClient = new_WSClient\<lparr> onOpen := True, onClose := True, onError := True,
                             onAck := True, onInterim := True, onProcessing := True,
                             onFinal := True \<rparr>;
                s1 = s\<lparr> wsClientRef := Some wsClient, handlersRender := r,
                       connectionStatus := ''CONNECTING'', sessionState := Connecting \<rparr>;
                (c1, effs) = connect e t None wsClient;
                (s2, effs2) = run_callbacks p r (calls effs) (s1\<lparr> wsClientRef := Some c1 \<rparr>)
            in (s2, map Client effs @ effs2))"

definition handleStartSession :: "props \<Rightarrow> env \<Rightarrow> render \<Rightarrow> component \<Rightarrow> component \<times> ui_effect list" where
  "handleStartSession p e r s =
     (if r_sessionState r \<noteq> Idle then (s, [])
      else (let (s1, effs) = setupWebSocket p e r s in (s1\<lparr> startPending := True \<rparr>, effs)))"

text \<open>The callback that \<open>handleStartSession\<close> hands to \<open>setTimeout\<close>.\<close>

definition start_timeout :: "props \<Rightarrow> env \<Rightarrow> component \<Rightarrow> component \<times> ui_effect list" where
  "start_timeout p e s =
     (if \<not> startPending s then (s, [])
      else (s\<lparr> startPending := False \<rparr>,
            case wsClientRef s of
              None \<Rightarrow> []
            | Some c \<Rightarrow> if isConnected c then map Client (snd (startSession e (prop_config p) c))
                        else []))"

subsection \<open>The component as a transition system\<close>

text \<open>
  What happens to a mounted component: the mount effect, clicks on the button that
  \<open>renderSessionControls\<close> shows in the current state, events of the client's socket, a
  firing of the timers it set, and events of the recorder. A click runs the closure of
  the latest render, that is of the current state.
\<close>

datatype event =
    Mounted
  | ClickStart
  | StartTimeout
  | Socket socket_event
  | Tick nat
  | ClickStop
  | MediaGranted
  | AudioData string
  | ClickNewSession
  | ClickTryAgain

definition socket_event_step :: "props \<Rightarrow> env \<Rightarrow> socket_event \<Rightarrow> component \<Rightarrow> component \<times> ui_effect list" where
  "socket_event_step p e ev s =
     (case wsClientRef s of
        None \<Rightarrow> (s, [])
      | Some c \<Rightarrow>
          let (c1, effs) = socket_step e ev c;
              (s2, effs2) = run_callbacks p (handlersRender s) (calls effs) (s\<lparr> wsClientRef := Some c1 \<rparr>)
          in (s2, map Client effs @ effs2))"

fun step :: "props \<Rightarrow> env \<Rightarrow> event \<Rightarrow> component \<Rightarrow> component \<times> ui_effect list" where
  "step p e Mounted s =
     (if prop_autoStart p \<and> auth_token p \<noteq> None \<and> auth_token p \<noteq> Some []
      then handleStartSession p e (current_render s) s else (s, []))"
| "step p e ClickStart s =
     (if sessionState s = Idle then handleStartSession p e (current_render s) s else (s, []))"
| "step p e StartTimeout s = start_timeout p e s"
| "step p e (Socket ev) s = socket_event_step p e ev s"
| "step p e (Tick t) s =
     (case map_of (intervals s) t of None \<Rightarrow> (s, []) | Some r \<Rightarrow> timer_tick e r s)"
| "step p e ClickStop s =
     (if sessionState s = Recording then handleStopSession e (current_render s) s else (s, []))"
| "step p e MediaGranted s = media_granted s"
| "step p e (AudioData base64Data) s =
     (if mediaRecorderRef s = Some RecorderRecording
      then (case onDataAvailableRef s of
              None \<Rightarrow> (s, [])
            | Some r \<Rightarrow> handleAudioData e r base64Data s)
      else (s, []))"
| "step p e ClickNewSession s =
     (if sessionState s = Completed
      then (s\<lparr> sessionState := Idle, currentTranscript := JStr [], finalResult := None,
                timeRemaining := 0, sequenceNumber := 0 \<rparr>, [])
      else (s, []))"
| "step p e ClickTryAgain s =
     (if sessionState s = Error
      then (s\<lparr> sessionState := Idle, currentTranscript := JStr [],
                connectionStatus := ''DISCONNECTED'' \<rparr>, [])
      else (s, []))"

fun run :: "props \<Rightarrow> env \<Rightarrow> event list \<Rightarrow> component \<Rightarrow> component \<times> ui_effect list" where
  "run p e [] s = (s, [])"
| "run p e (ev # evs) s =
     (let (s1, effs1) = step p e ev s;
          (s2, effs2) = run p e evs s1
      in (s2, effs1 @ effs2))"

text \<open>The texts the component's client sent, in order.\<close>

fun sent :: "ui_effect list \<Rightarrow> string list" where
  "sent [] = []"
| "sent (Client (Transmit wire) # effs) = wire # sent effs"
| "sent (x # effs) = sent effs"

text \<open>\<open>renderResults\<close> shows the result under this condition.\<close>

definition results_shown :: "component \<Rightarrow> bool" where
  "results_shown s = (finalResult s \<noteq> None \<and> sessionState s = Completed)"

subsection \<open>An example session\<close>

definition example_props :: props where
  "example_props =
     \<lparr> prop_config = JObj [(''subject'', JStr ''Travel''), (''speak_time'', JNum 60),
                           (''type'', JStr ''subject_speak'')],
       prop_onSessionComplete = True, prop_onError = True, prop_autoStart = False,
       auth_token = Some ''tok'' \<rparr>"

text \<open>
  The user starts a session, the socket opens, the start message goes out, the server
  acknowledges with \<open>max_duration = 2\<close>, and the microphone is granted.
\<close>

definition session_recording :: "event list" where
  "session_recording =
     [ClickStart, Socket SockOpen, StartTimeout, Socket (SockMessage (show_json ack_s1)),
      MediaGranted]"

text \<open>
  The render in which that session was started, the client it leaves behind, and the
  state of the component once it is recording.
\<close>

definition stale_render :: render where
  "stale_render = \<lparr> r_sessionState = Idle, r_sequenceNumber = 0, r_isRecording = False \<rparr>"

definition recording_client :: ws_client where
  "recording_client =
     \<lparr> ws = Some \<lparr> url = WsUrl ''ws://localhost:8000'' ''tok'' None, readyState = OPEN \<rparr>,
       reconnectAttempts = 0, maxReconnectAttempts = 5, reconnectDelay = 1000,
       heartbeatInterval = True, isConnected = True,
       onOpen = True, onClose = True, onError = True, onAck = True, onInterim = True,
       onProcessing = True, onFinal = True, onMessage = False,
       sessionId = Some (JStr ''s1''), token = Some ''tok'' \<rparr>"

definition recording_state :: component where
  "recording_state =
     \<lparr> sessionState = Recording, currentTranscript = JStr [], finalResult = None,
       connectionStatus = ''CONNECTED'', timeRemaining = 2, sequenceNumber = 0,
       wsClientRef = Some recording_client,
       handlersRender = stale_render,
       timerRef = Some 1, intervals = [(1, stale_render)], nextTimerId = 2, startPending = False,
       isRecording = True, mediaRecorderRef = Some RecorderRecording, streamRef = True,
       onDataAvailableRef = Some stale_render, mediaPending = False \<rparr>"

text \<open>
  The closures installed on the client, and the one passed to the recorder, belong to
  a render whose state was idle.
\<close>

definition closures_idle :: "component \<Rightarrow> bool" where
  "closures_idle s =
     (r_sessionState (handlersRender s) = Idle
      \<and> (case onDataAvailableRef s of None \<Rightarrow> True | Some r \<Rightarrow> r_sessionState r = Idle))"

section \<open>Properties of WSClient\<close>

subsection \<open>Reconnection\<close>

lemma timeouts_append [simp]: "timeouts (xs @ ys) = timeouts xs @ timeouts ys"
  by (induction xs rule: timeouts.induct) auto

lemma connect_reconnect_fields:
  "reconnectAttempts (fst (connect e tok sid c)) = reconnectAttempts c"
  "maxReconnectAttempts (fst (connect e tok sid c)) = maxReconnectAttempts c"
  "reconnectDelay (fst (connect e tok sid c)) = reconnectDelay c"
  "timeouts (snd (connect e tok sid c)) = []"
  by (simp_all add: connect_def Let_def)

lemma reconnect_timeout_fields:
  "reconnectAttempts (fst (reconnect_timeout e c)) = reconnectAttempts c"
  "maxReconnectAttempts (fst (reconnect_timeout e c)) = maxReconnectAttempts c"
  "reconnectDelay (fst (reconnect_timeout e c)) = reconnectDelay c"
  "timeouts (snd (reconnect_timeout e c)) = []"
  by (simp_all add: reconnect_timeout_def connect_reconnect_fields split: option.splits)

lemma ws_onclose_fields:
  "maxReconnectAttempts (fst (ws_onclose code c)) = maxReconnectAttempts c"
  "reconnectDelay (fst (ws_onclose code c)) = reconnectDelay c"
  "reconnectAttempts (fst (ws_onclose code c)) =
     (if code \<noteq> 1000 \<and> reconnectAttempts c < maxReconnectAttempts c
      then reconnectAttempts c + 1 else reconnectAttempts c)"
  "timeouts (snd (ws_onclose code c)) =
     (if code \<noteq> 1000 \<and> reconnectAttempts c < maxReconnectAttempts c
      then [reconnectDelay c * 2 ^ reconnectAttempts c] else [])"
  by (simp_all add: ws_onclose_def stopHeartbeat_def attemptReconnect_def Let_def)

lemma ws_onopen_fields:
  "maxReconnectAttempts (fst (ws_onopen c)) = maxReconnectAttempts c"
  "reconnectDelay (fst (ws_onopen c)) = reconnectDelay c"
  "reconnectAttempts (fst (ws_onopen c)) = 0"
  "timeouts (snd (ws_onopen c)) = []"
  by (simp_all add: ws_onopen_def startHeartbeat_def Let_def)

lemma handleMessage_fields:
  "maxReconnectAttempts (fst (snd (handleMessage m c))) = maxReconnectAttempts c"
  "reconnectDelay (fst (snd (handleMessage m c))) = reconnectDelay c"
  "reconnectAttempts (fst (snd (handleMessage m c))) = reconnectAttempts c"
  "timeouts (snd (snd (handleMessage m c))) = []"
  by (simp_all add: handleMessage_def Let_def)

lemma ws_onmessage_fields:
  "maxReconnectAttempts (fst (ws_onmessage e data c)) = maxReconnectAttempts c"
  "reconnectDelay (fst (ws_onmessage e data c)) = reconnectDelay c"
  "reconnectAttempts (fst (ws_onmessage e data c)) = reconnectAttempts c"
  "timeouts (snd (ws_onmessage e data c)) = []"
proof -
  show "maxReconnectAttempts (fst (ws_onmessage e data c)) = maxReconnectAttempts c"
    using handleMessage_fields(1) [of "the (json_parse e data)" c]
    by (auto simp: ws_onmessage_def split: option.splits prod.splits)
  show "reconnectDelay (fst (ws_onmessage e data c)) = reconnectDelay c"
    using handleMessage_fields(2) [of "the (json_parse e data)" c]
    by (auto simp: ws_onmessage_def split: option.splits prod.splits)
  show "reconnectAttempts (fst (ws_onmessage e data c)) = reconnectAttempts c"
    using handleMessage_fields(3) [of "the (json_parse e data)" c]
    by (auto simp: ws_onmessage_def split: option.splits prod.splits)
  show "timeouts (snd (ws_onmessage e data c)) = []"
    using handleMessage_fields(4) [of "the (json_parse e data)" c]
    by (auto simp: ws_onmessage_def split: option.splits prod.splits)
qed

lemma sendMessage_timeouts: "timeouts (snd (sendMessage e m c)) = []"
  by (simp add: sendMessage_def split: sum.splits)

lemma set_readyState_fields [simp]:
  "maxReconnectAttempts (set_readyState r c) = maxReconnectAttempts c"
  "reconnectDelay (set_readyState r c) = reconnectDelay c"
  "reconnectAttempts (set_readyState r c) = reconnectAttempts c"
  by (simp_all add: set_readyState_def)

lemma socket_step_constants:
  "maxReconnectAttempts (fst (socket_step e ev c)) = maxReconnectAttempts c
   \<and> reconnectDelay (fst (socket_step e ev c)) = reconnectDelay c"
  by (cases ev) (simp_all add: ws_onopen_fields ws_onclose_fields ws_onmessage_fields
       reconnect_timeout_fields ws_onerror_def)

lemma client_step_constants:
  "maxReconnectAttempts (fst (client_step e op c)) = maxReconnectAttempts c
   \<and> reconnectDelay (fst (client_step e op c)) = reconnectDelay c"
  by (cases op) (simp_all add: socket_step_constants connect_reconnect_fields
       disconnect_def stopHeartbeat_def Let_def split: option.splits)

lemma run_client_constants:
  "maxReconnectAttempts (fst (run_client e ops c)) = maxReconnectAttempts c
   \<and> reconnectDelay (fst (run_client e ops c)) = reconnectDelay c"
proof (induction ops arbitrary: c)
  case Nil
  show ?case by simp
next
  case (Cons op ops)
  show ?case
    using Cons.IH [of "fst (client_step e op c)"] client_step_constants [of e op c]
    by (simp add: split_beta Let_def)
qed

lemma socket_step_timeouts:
  "timeouts (snd (socket_step e ev c)) =
     (if (\<exists>code. ev = SockClose code \<and> code \<noteq> 1000) \<and> reconnectAttempts c < maxReconnectAttempts c
      then [reconnectDelay c * 2 ^ reconnectAttempts c] else [])"
  by (cases ev) (simp_all add: ws_onopen_fields ws_onclose_fields ws_onmessage_fields
       reconnect_timeout_fields ws_onerror_def heartbeat_tick_def ping_def sendMessage_timeouts)

lemma client_step_timeouts:
  "timeouts (snd (client_step e op c)) =
     (if (\<exists>code. op = Event (SockClose code) \<and> code \<noteq> 1000) \<and> reconnectAttempts c < maxReconnectAttempts c
      then [reconnectDelay c * 2 ^ reconnectAttempts c] else [])"
  by (cases op) (simp_all add: socket_step_timeouts connect_reconnect_fields sendMessage_timeouts
       startSession_def sendAudioChunk_def stopSession_def
       disconnect_def stopHeartbeat_def Let_def split: option.splits)

text \<open>
  The delays of a run of failed connections, from any count of earlier attempts: the
  induction needs the count general, since each close changes it.
\<close>

lemma failed_attempts_delays:
  assumes "maxReconnectAttempts c = 5" "reconnectDelay c = 1000" "\<forall>code\<in>set codes. code \<noteq> 1000"
  shows "timeouts (snd (run_client e (failed_attempts codes) c))
           = map (\<lambda>n. 1000 * 2 ^ n) [reconnectAttempts c..<min (reconnectAttempts c + length codes) 5]"
  using assms
proof (induction codes arbitrary: c)
  case Nil
  show ?case by simp
next
  case (Cons code codes)
  let ?c1 = "fst (ws_onclose code (set_readyState CLOSED c))"
  let ?c2 = "fst (reconnect_timeout e ?c1)"
  have c2: "maxReconnectAttempts ?c2 = 5" "reconnectDelay ?c2 = 1000"
    using Cons.prems by (simp_all add: reconnect_timeout_fields ws_onclose_fields)
  have att: "reconnectAttempts ?c2 = (if reconnectAttempts c < 5 then reconnectAttempts c + 1 else reconnectAttempts c)"
    using Cons.prems by (simp add: reconnect_timeout_fields ws_onclose_fields)
  have ih: "timeouts (snd (run_client e (failed_attempts codes) ?c2))
           = map (\<lambda>n. 1000 * 2 ^ n) [reconnectAttempts ?c2..<min (reconnectAttempts ?c2 + length codes) 5]"
    using Cons.IH [OF c2] Cons.prems(3) by simp
  have step: "timeouts (snd (run_client e (failed_attempts (code # codes)) c))
      = (if reconnectAttempts c < 5 then [1000 * 2 ^ reconnectAttempts c] else [])
        @ timeouts (snd (run_client e (failed_attempts codes) ?c2))"
    using Cons.prems
    by (simp add: split_beta Let_def ws_onclose_fields reconnect_timeout_fields)
  show ?case
  proof (cases "reconnectAttempts c < 5")
    case True
    then have lt: "reconnectAttempts c < min (reconnectAttempts c + length (code # codes)) 5"
      by simp
    have m: "min (reconnectAttempts c + length (code # codes)) 5
               = min (Suc (reconnectAttempts c) + length codes) 5"
      by simp
    have "[reconnectAttempts c..<min (reconnectAttempts c + length (code # codes)) 5]
            = reconnectAttempts c # [Suc (reconnectAttempts c)..<min (Suc (reconnectAttempts c) + length codes) 5]"
      using upt_conv_Cons [OF lt] unfolding m .
    with True show ?thesis unfolding step ih att by simp
  next
    case False
    then show ?thesis unfolding step ih att by simp
  qed
qed

text \<open>
  C4. A step of the client schedules a reconnection exactly when it is a close with a
  code other than 1000 while the attempt counter is below the maximum, and then with
  delay \<open>reconnectDelay * 2 ^ reconnectAttempts\<close>. In every state the client can reach the
  maximum is 5 and the base delay 1000; an open resets the counter to 0. So from a state
  with no attempt pending, in a run of failed connections none of which closes with code
  1000, the n-th attempt (n from 1 to 5) is delayed \<open>1000 * 2 ^ (n - 1)\<close> milliseconds and
  there is no sixth.
\<close>

theorem reconnect_bounded_backoff:
  "timeouts (snd (client_step e op c)) =
     (if (\<exists>code. op = Event (SockClose code) \<and> code \<noteq> 1000) \<and> reconnectAttempts c < maxReconnectAttempts c
      then [reconnectDelay c * 2 ^ reconnectAttempts c] else [])
   \<and> maxReconnectAttempts (fst (run_client e ops new_WSClient)) = 5
   \<and> reconnectDelay (fst (run_client e ops new_WSClient)) = 1000
   \<and> reconnectAttempts (fst (client_step e (Event SockOpen) c)) = 0
   \<and> (c = fst (run_client e ops new_WSClient) \<and> reconnectAttempts c = 0
        \<and> (\<forall>code\<in>set codes. code \<noteq> 1000) \<longrightarrow>
      timeouts (snd (run_client e (failed_attempts codes) c))
        = map (\<lambda>n. 1000 * 2 ^ (n - 1)) [1..<Suc (min (length codes) 5)])"
proof -
  have k: "maxReconnectAttempts (fst (run_client e ops new_WSClient)) = 5"
      "reconnectDelay (fst (run_client e ops new_WSClient)) = 1000"
    using run_client_constants [of e ops new_WSClient] by (simp_all add: new_WSClient_def)
  have shift: "map (\<lambda>n. 1000 * 2 ^ (n - 1)) [1..<Suc j] = map (\<lambda>n. 1000 * 2 ^ n) [0..<j]" for j :: nat
  proof -
    have "[1..<Suc j] = map Suc [0..<j]" by (simp only: map_Suc_upt One_nat_def)
    then show ?thesis by (simp only: map_map comp_def diff_Suc_1)
  qed
  have run: "timeouts (snd (run_client e (failed_attempts codes) c))
        = map (\<lambda>n. 1000 * 2 ^ (n - 1)) [1..<Suc (min (length codes) 5)]"
    if "c = fst (run_client e ops new_WSClient)" "reconnectAttempts c = 0" "\<forall>code\<in>set codes. code \<noteq> 1000"
  proof -
    have "timeouts (snd (run_client e (failed_attempts codes) c))
            = map (\<lambda>n. 1000 * 2 ^ n) [0..<min (length codes) 5]"
      using failed_attempts_delays [of c codes e] k that by simp
    then show ?thesis unfolding shift .
  qed
  show ?thesis
  proof (intro conjI impI)
    show "timeouts (snd (client_step e op c)) =
       (if (\<exists>code. op = Event (SockClose code) \<and> code \<noteq> 1000) \<and> reconnectAttempts c < maxReconnectAttempts c
        then [reconnectDelay c * 2 ^ reconnectAttempts c] else [])"
      by (rule client_step_timeouts)
    show "reconnectAttempts (fst (client_step e (Event SockOpen) c)) = 0"
      by (simp add: ws_onopen_fields)
    assume "c = fst (run_client e ops new_WSClient) \<and> reconnectAttempts c = 0
        \<and> (\<forall>code\<in>set codes. code \<noteq> 1000)"
    then show "timeouts (snd (run_client e (failed_attempts codes) c))
        = map (\<lambda>n. 1000 * 2 ^ (n - 1)) [1..<Suc (min (length codes) 5)]"
      using run by blast
  qed (rule k)+
qed

theorem reconnect_bounded_backoff_witness:
  "timeouts (snd (run_client example_env (failed_attempts [1006, 1006, 1011, 1006, 1006, 1006, 1006]) new_WSClient))
     = [1000, 2000, 4000, 8000, 16000]
   \<and> timeouts (snd (client_step example_env (Event (SockClose 1000)) new_WSClient)) = []"
  using reconnect_bounded_backoff [of example_env "Event (SockClose 1000)" new_WSClient "[]" "[1006, 1006, 1011, 1006, 1006, 1006, 1006]"]
  by (simp add: new_WSClient_def upt_rec)

subsection \<open>Inbound frames\<close>

text \<open>
  C5, as the claim states it, fails: on a frame that \<open>JSON.parse\<close> rejects, a client with
  an \<open>onError\<close> handler installed calls no handler at all; it only writes to the console.
\<close>

theorem undecodable_frame_no_error_handler:
  "json_parse example_env ''{'' = None \<and> onError open_client
   \<and> socket_step example_env (SockMessage ''{'') open_client
       = (open_client, [ConsoleError ''Failed to parse WebSocket message:''])"
  by (simp add: ws_onmessage_def example_env_def example_frames_def ack_s1_def final_s1_def
        processing_s1_def pong_def quote_def open_client_def new_WSClient_def)

text \<open>
  C5, amended. A frame that fails to decode as JSON is logged with \<open>console.error\<close> and
  dropped: \<open>handleMessage\<close> is not run, no handler is called (the error handler included),
  nothing is sent and no field of the client changes.
\<close>

theorem undecodable_frame_dropped:
  "json_parse e data = None \<Longrightarrow>
     ws_onmessage e data c = (c, [ConsoleError ''Failed to parse WebSocket message:''])"
  by (simp add: ws_onmessage_def)

theorem undecodable_frame_dropped_witness:
  "ws_onmessage example_env ''{'' open_client
     = (open_client, [ConsoleError ''Failed to parse WebSocket message:''])"
  by (rule undecodable_frame_dropped)
     (simp add: example_env_def example_frames_def ack_s1_def final_s1_def
        processing_s1_def pong_def quote_def)

text \<open>
  C6, as the claim states it, fails: for a message of the unknown type \<open>pong\<close>, a client
  with every handler installed calls the generic \<open>onMessage\<close> handler and writes a
  \<open>console.log\<close> line; it produces no error.
\<close>

theorem unknown_type_no_error:
  "onError open_client
   \<and> handleMessage pong open_client
       = (None, open_client, [Call (CbMessage pong), ConsoleLog ''Unknown message type:''])"
  by (simp add: handleMessage_def pong_def open_client_def new_WSClient_def)

lemma get_field_extra:
  "k' \<noteq> k \<Longrightarrow> get_field (JObj (xs @ (k, v) # ys)) k' = get_field (JObj (xs @ ys)) k'"
  by (simp add: map_add_def split: option.splits)

lemma unknown_type_default:
  assumes "m \<noteq> JNull" "\<not> has_known_type m"
  shows "handleMessage m c
        = (None, c, (if onMessage c then [Call (CbMessage m)] else []) @ [ConsoleLog ''Unknown message type:''])"
proof -
  from assms(2) have
    "get_field m ''type'' \<noteq> Some (JStr ''ack'')"
    "get_field m ''type'' \<noteq> Some (JStr ''interim'')"
    "get_field m ''type'' \<noteq> Some (JStr ''processing'')"
    "get_field m ''type'' \<noteq> Some (JStr ''final'')"
    "get_field m ''type'' \<noteq> Some (JStr ''error'')"
    unfolding has_known_type_def known_types_def by (auto split: option.splits json.splits)
  with assms(1) show ?thesis
    unfolding handleMessage_def Let_def by simp
qed

lemma extra_field_dispatch:
  assumes "k \<notin> {''type'', ''session_id'', ''message''}"
  shows "has_known_type (JObj (xs @ (k, v) # ys)) = has_known_type (JObj (xs @ ys))"
    and "handleMessage (JObj (xs @ (k, v) # ys)) c
        = (case handleMessage (JObj (xs @ ys)) c of
             (x, c1, effs) \<Rightarrow> (x, c1, map (with_message (JObj (xs @ (k, v) # ys))) effs))"
proof -
  from assms have k: "''type'' \<noteq> k" "''session_id'' \<noteq> k" "''message'' \<noteq> k" by auto
  note g = get_field_extra [OF k(1)] get_field_extra [OF k(2)] get_field_extra [OF k(3)]
  show "has_known_type (JObj (xs @ (k, v) # ys)) = has_known_type (JObj (xs @ ys))"
    unfolding has_known_type_def g ..
  show "handleMessage (JObj (xs @ (k, v) # ys)) c
        = (case handleMessage (JObj (xs @ ys)) c of
             (x, c1, effs) \<Rightarrow> (x, c1, map (with_message (JObj (xs @ (k, v) # ys))) effs))"
    unfolding handleMessage_def g Let_def by simp
qed

text \<open>
  C6, amended. A decoded message other than \<open>null\<close> whose type is not one of ack,
  interim, processing, final, error is passed to the generic \<open>onMessage\<close> handler when
  one is installed, logged with \<open>console.log\<close> and otherwise ignored: no type-specific
  handler and no error handler is called, nothing is thrown and no field of the client
  changes. A message of a known type with one more member, under a name that
  \<open>handleMessage\<close> does not read, is still of a known type and is dispatched as without
  it: the same fields change and the same handlers are called, with the whole message
  as their argument.
\<close>

theorem unknown_type_logged_extra_fields_ignored:
  "(m \<noteq> JNull \<and> \<not> has_known_type m \<longrightarrow>
      handleMessage m c
        = (None, c, (if onMessage c then [Call (CbMessage m)] else []) @ [ConsoleLog ''Unknown message type:'']))
   \<and> (has_known_type (JObj (xs @ ys)) \<and> k \<notin> {''type'', ''session_id'', ''message''} \<longrightarrow>
      has_known_type (JObj (xs @ (k, v) # ys))
      \<and> handleMessage (JObj (xs @ (k, v) # ys)) c
        = (case handleMessage (JObj (xs @ ys)) c of
             (x, c1, effs) \<Rightarrow> (x, c1, map (with_message (JObj (xs @ (k, v) # ys))) effs)))"
  by (simp add: unknown_type_default extra_field_dispatch del: insert_iff)

theorem unknown_type_logged_extra_fields_ignored_witness:
  "handleMessage pong new_WSClient = (None, new_WSClient, [ConsoleLog ''Unknown message type:''])
   \<and> has_known_type (JObj [(''type'', JStr ''interim''), (''extra'', JNum 7), (''transcript'', JStr ''hi'')])
   \<and> handleMessage (JObj [(''type'', JStr ''interim''), (''extra'', JNum 7), (''transcript'', JStr ''hi'')]) open_client
       = (None, open_client,
          [Call (CbMessage (JObj [(''type'', JStr ''interim''), (''extra'', JNum 7), (''transcript'', JStr ''hi'')])),
           Call (CbInterim (JObj [(''type'', JStr ''interim''), (''extra'', JNum 7), (''transcript'', JStr ''hi'')]))])"
  using unknown_type_logged_extra_fields_ignored
          [of pong new_WSClient "[(''type'', JStr ''interim'')]" "[(''transcript'', JStr ''hi'')]"
              "''extra''" "JNum 7"]
        unknown_type_logged_extra_fields_ignored
          [of pong open_client "[(''type'', JStr ''interim'')]" "[(''transcript'', JStr ''hi'')]"
              "''extra''" "JNum 7"]
  by (simp add: pong_def has_known_type_def known_types_def new_WSClient_def open_client_def
        handleMessage_def)

subsection \<open>Outbound messages\<close>

lemma transmit_sendMessage:
  "Transmit wire \<in> set (snd (sendMessage e m c)) \<Longrightarrow> json_stringify e m = Some wire"
  by (auto simp: sendMessage_def ws_send_def split: sum.splits option.splits if_splits)

lemma transmit_stopSession:
  "Transmit wire \<in> set (snd (stopSession e c)) \<Longrightarrow>
     \<exists>m. is_stop_message m \<and> json_stringify e m = Some wire"
proof -
  assume t: "Transmit wire \<in> set (snd (stopSession e c))"
  then obtain sid where sid: "sessionId c = Some sid" "truthy sid"
    by (auto simp: stopSession_def split: option.splits if_splits)
  with t have "json_stringify e (JObj [(''type'', JStr ''stop''), (''session_id'', sid)]) = Some wire"
    by (auto simp: stopSession_def dest: transmit_sendMessage)
  with sid show ?thesis
    by (intro exI [of _ "JObj [(''type'', JStr ''stop''), (''session_id'', sid)]"]) simp
qed

lemma transmit_ping:
  "Transmit wire \<in> set (snd (ping e c)) \<Longrightarrow>
     \<exists>m. is_ping_message m \<and> json_stringify e m = Some wire"
  by (intro exI [of _ "JObj [(''type'', JStr ''ping'')]"])
     (auto simp: ping_def dest: transmit_sendMessage)

lemma transmit_startSession:
  "Transmit wire \<in> set (snd (startSession e config c)) \<Longrightarrow>
     \<exists>m. is_start_message m \<and> json_stringify e m = Some wire"
  by (intro exI [of _ "JObj [(''type'', JStr ''start''), (''config'', config)]"])
     (auto simp: startSession_def dest: transmit_sendMessage)

lemma transmit_sendAudioChunk:
  "Transmit wire \<in> set (snd (sendAudioChunk e a n c)) \<Longrightarrow>
     \<exists>m. is_audio_message m \<and> json_stringify e m = Some wire"
  by (intro exI [of _ "JObj [(''type'', JStr ''audio''), (''sequence'', JNum n), (''payload_b64'', JStr a)]"])
     (auto simp: sendAudioChunk_def dest: transmit_sendMessage)

lemma no_transmit_connect: "Transmit wire \<notin> set (snd (connect e tok sid c))"
  by (auto simp: connect_def Let_def)

lemma no_transmit_handleMessage: "Transmit wire \<notin> set (snd (snd (handleMessage m c)))"
  by (auto simp: handleMessage_def Let_def)

lemma handleMessage_effs_no_transmit:
  "handleMessage m c = (x, c1, effs) \<Longrightarrow> Transmit wire \<notin> set effs"
  using no_transmit_handleMessage [of _ m c] by simp

lemma no_transmit_onmessage: "Transmit wire \<notin> set (snd (ws_onmessage e data c))"
  by (auto simp: ws_onmessage_def split: option.splits prod.splits dest: handleMessage_effs_no_transmit)

lemma no_transmit_socket_other:
  "Transmit wire \<notin> set (snd (ws_onopen c))"
  "Transmit wire \<notin> set (snd (ws_onclose code c))"
  "Transmit wire \<notin> set (snd (ws_onerror c))"
  "Transmit wire \<notin> set (snd (reconnect_timeout e c))"
  "Transmit wire \<notin> set (snd (disconnect c))"
  by (auto simp: ws_onopen_def ws_onclose_def ws_onerror_def reconnect_timeout_def disconnect_def
        startHeartbeat_def stopHeartbeat_def attemptReconnect_def Let_def no_transmit_connect
        split: option.splits prod.splits if_splits)

text \<open>
  C7, as the claim states it, fails: the stop message is not the empty shape \<open>stop{}\<close>; it
  carries the session id.
\<close>

theorem stop_message_carries_session_id:
  "transmitted (snd (client_step example_env StopSession open_client))
     = [show_json (JObj [(''type'', JStr ''stop''), (''session_id'', JStr ''s1'')])]
   \<and> show_json (JObj [(''type'', JStr ''stop''), (''session_id'', JStr ''s1'')])
       \<noteq> show_json (JObj [(''type'', JStr ''stop'')])"
  by (simp add: stopSession_def sendMessage_def ws_send_def open_client_def new_WSClient_def
        example_env_def quote_def)

text \<open>
  C7, amended. Every text the client hands to the socket, in any step (a method call, a
  socket event or a timer callback), is the serialisation of an object of one of four
  shapes: \<open>{type: 'start', config}\<close>, \<open>{type: 'audio', sequence, payload_b64}\<close>,
  \<open>{type: 'stop', session_id}\<close> with a truthy session id, or \<open>{type: 'ping'}\<close>, with exactly
  those members.
\<close>

theorem client_message_taxonomy:
  "Transmit wire \<in> set (snd (client_step e op c)) \<Longrightarrow>
     \<exists>m. is_client_message m \<and> json_stringify e m = Some wire"
proof (cases op)
  case (Event ev)
  assume t: "Transmit wire \<in> set (snd (client_step e op c))"
  show ?thesis
  proof (cases ev)
    case HeartbeatTick
    with t Event have "Transmit wire \<in> set (snd (ping e c))"
      by (auto simp: heartbeat_tick_def split: if_splits)
    then show ?thesis using transmit_ping by (fastforce simp: is_client_message_def)
  qed (use t Event no_transmit_socket_other no_transmit_onmessage in auto)
qed (auto simp: is_client_message_def no_transmit_connect no_transmit_socket_other
       dest: transmit_startSession transmit_sendAudioChunk transmit_stopSession)

theorem client_message_taxonomy_witness:
  "\<exists>m. is_client_message m
       \<and> json_stringify example_env m
           = Some (show_json (JObj [(''type'', JStr ''stop''), (''session_id'', JStr ''s1'')]))"
  by (rule client_message_taxonomy [of _ example_env StopSession open_client])
     (simp add: stopSession_def sendMessage_def ws_send_def open_client_def new_WSClient_def
        example_env_def)

text \<open>
  C8. \<open>sendMessage\<close> always returns a boolean and never propagates an exception. When
  the client is not connected, has no socket, or its socket is not open, it returns
  false and sends nothing. When \<open>JSON.stringify\<close> or \<open>send\<close> throws, it returns false and
  sends nothing. It returns true only after handing the serialised message to the
  socket. (It has no queue: it changes no field of the client.)
\<close>

theorem sendMessage_total_non_throwing:
  "(\<exists>b. fst (sendMessage e m c) = Inr b)
   \<and> (\<not> isConnected c \<or> ws c = None \<or> map_option readyState (ws c) \<noteq> Some OPEN
        \<longrightarrow> fst (sendMessage e m c) = Inr False \<and> transmitted (snd (sendMessage e m c)) = [])
   \<and> ((\<exists>x. ws_send e m = Inl x)
        \<longrightarrow> fst (sendMessage e m c) = Inr False \<and> transmitted (snd (sendMessage e m c)) = [])
   \<and> (fst (sendMessage e m c) = Inr True
        \<longrightarrow> (\<exists>wire. ws_send e m = Inr wire \<and> snd (sendMessage e m c) = [Transmit wire]))"
  by (auto simp: sendMessage_def split: sum.splits)

theorem sendMessage_total_non_throwing_witness:
  "fst (sendMessage example_env pong new_WSClient) = Inr False
   \<and> transmitted (snd (sendMessage example_env pong new_WSClient)) = []
   \<and> fst (sendMessage unserialisable_env pong open_client) = Inr False
   \<and> transmitted (snd (sendMessage unserialisable_env pong open_client)) = []
   \<and> fst (sendMessage broken_socket_env pong open_client) = Inr False
   \<and> transmitted (snd (sendMessage broken_socket_env pong open_client)) = []"
  using sendMessage_total_non_throwing [of example_env pong new_WSClient]
        sendMessage_total_non_throwing [of unserialisable_env pong open_client]
        sendMessage_total_non_throwing [of broken_socket_env pong open_client]
  by (simp add: new_WSClient_def ws_send_def unserialisable_env_def broken_socket_env_def
        example_env_def)

subsection \<open>The session id\<close>

lemma or_null_truthy: "truthy_opt (or_null sid) \<Longrightarrow> or_null sid = sid"
  by (simp add: or_null_def split: if_splits)

lemma connect_sessionId:
  "sessionId (fst (connect e tok sid c)) = sessionId c \<or> sessionId (fst (connect e tok sid c)) = or_null sid"
  by (simp add: connect_def Let_def)

lemma handleMessage_sessionId:
  "sessionId (fst (snd (handleMessage m c))) \<noteq> sessionId c \<Longrightarrow>
     get_field m ''type'' = Some (JStr ''ack'')
     \<and> sessionId (fst (snd (handleMessage m c))) = get_field m ''session_id''"
  by (simp add: handleMessage_def Let_def split: if_splits)

lemma ws_onmessage_sessionId:
  assumes "sessionId (fst (ws_onmessage e data c)) \<noteq> sessionId c"
  shows "\<exists>m. json_parse e data = Some m \<and> get_field m ''type'' = Some (JStr ''ack'')
             \<and> sessionId (fst (ws_onmessage e data c)) = get_field m ''session_id''"
proof (cases "json_parse e data")
  case None
  with assms show ?thesis by (simp add: ws_onmessage_def)
next
  case (Some m)
  then have "fst (ws_onmessage e data c) = fst (snd (handleMessage m c))"
    by (simp add: ws_onmessage_def split: prod.splits option.splits)
  with assms Some show ?thesis using handleMessage_sessionId [of m c] by simp
qed

lemma socket_step_sessionId:
  assumes "truthy_opt (sessionId (fst (socket_step e ev c)))"
      and "sessionId (fst (socket_step e ev c)) \<noteq> sessionId c"
  shows "\<exists>data m. ev = SockMessage data \<and> json_parse e data = Some m
             \<and> get_field m ''type'' = Some (JStr ''ack'')
             \<and> sessionId (fst (socket_step e ev c)) = get_field m ''session_id''"
proof (cases ev)
  case (SockMessage data)
  with assms(2) show ?thesis using ws_onmessage_sessionId [of e data c] by simp
next
  case ReconnectTimeout
  show ?thesis
  proof (cases "token c")
    case None
    with assms(2) ReconnectTimeout show ?thesis by (simp add: reconnect_timeout_def)
  next
    case (Some t)
    with assms ReconnectTimeout connect_sessionId [of e t "or_null (sessionId c)" c]
    show ?thesis
      by (auto simp: reconnect_timeout_def or_null_def split: if_splits)
  qed
qed (use assms in \<open>simp_all add: ws_onopen_def ws_onclose_def ws_onerror_def startHeartbeat_def
       stopHeartbeat_def attemptReconnect_def set_readyState_def Let_def split: if_splits\<close>)

lemma disconnect_sessionId: "sessionId (fst (disconnect c)) = None"
  by (simp add: disconnect_def stopHeartbeat_def split_beta split: option.splits)

lemma connect_with_session_opens:
  "run_client example_env [Connect ''tok'' (Some (JStr ''s1'')), Event SockOpen] new_WSClient
     = (new_WSClient\<lparr> ws := Some \<lparr> url = WsUrl ''ws://localhost:8000'' ''tok'' (Some (JStr ''s1'')),
                                    readyState = OPEN \<rparr>,
          heartbeatInterval := True, isConnected := True, sessionId := Some (JStr ''s1''),
          token := Some ''tok'' \<rparr>,
        [NewSocket (WsUrl ''ws://localhost:8000'' ''tok'' (Some (JStr ''s1''))),
         ConsoleLog ''WebSocket connected'', SetInterval 30000])"
  by (simp add: new_WSClient_def connect_def socket_live_def
        or_null_def ws_onopen_def startHeartbeat_def set_readyState_def
        example_env_def Let_def)

text \<open>
  C9, as the claim states it, fails: a fresh client that is connected with a session id
  as the second argument of \<open>connect\<close>, and whose socket opens, sends a stop message,
  though it has received no message, and so no ack.
\<close>

theorem stop_without_ack:
  "stopSession example_env
     (fst (run_client example_env [Connect ''tok'' (Some (JStr ''s1'')), Event SockOpen] new_WSClient))
     = (Inr True, [Transmit (show_json (JObj [(''type'', JStr ''stop''), (''session_id'', JStr ''s1'')]))])"
  unfolding connect_with_session_opens
  by (simp add: stopSession_def sendMessage_def ws_send_def new_WSClient_def example_env_def)

text \<open>
  C9, amended. \<open>stopSession\<close> sends a stop message only when the client's session id is
  truthy; when it is not, \<open>stopSession\<close> returns false, sends nothing and changes no
  field of the client. A step of the client gives the session id a new truthy value only
  when it is a \<open>connect\<close> called with that session id, or an ack message carrying it.
\<close>

theorem stopSession_requires_session_id:
  "(\<not> truthy_opt (sessionId c) \<longrightarrow>
      stopSession e c = (Inr False, [ConsoleWarn ''No session ID available for stop message''])
      \<and> fst (client_step e StopSession c) = c)
   \<and> (transmitted (snd (stopSession e c)) \<noteq> [] \<longrightarrow> truthy_opt (sessionId c))
   \<and> (truthy_opt (sessionId (fst (client_step e op c)))
        \<and> sessionId (fst (client_step e op c)) \<noteq> sessionId c \<longrightarrow>
      (\<exists>tok. op = Connect tok (sessionId (fst (client_step e op c))))
      \<or> (\<exists>data m. op = Event (SockMessage data) \<and> json_parse e data = Some m
             \<and> get_field m ''type'' = Some (JStr ''ack'')
             \<and> sessionId (fst (client_step e op c)) = get_field m ''session_id''))"
proof (intro conjI impI)
  assume "\<not> truthy_opt (sessionId c)"
  then show "stopSession e c = (Inr False, [ConsoleWarn ''No session ID available for stop message''])"
    by (cases "sessionId c") (simp_all add: stopSession_def)
next
  show "fst (client_step e StopSession c) = c" by simp
next
  assume "transmitted (snd (stopSession e c)) \<noteq> []"
  then show "truthy_opt (sessionId c)"
    by (auto simp: stopSession_def split: option.splits if_splits)
next
  assume a: "truthy_opt (sessionId (fst (client_step e op c)))
        \<and> sessionId (fst (client_step e op c)) \<noteq> sessionId c"
  show "(\<exists>tok. op = Connect tok (sessionId (fst (client_step e op c))))
      \<or> (\<exists>data m. op = Event (SockMessage data) \<and> json_parse e data = Some m
             \<and> get_field m ''type'' = Some (JStr ''ack'')
             \<and> sessionId (fst (client_step e op c)) = get_field m ''session_id'')"
  proof (cases op)
    case (Connect tok sid)
    with a connect_sessionId [of e tok sid c] have "sessionId (fst (client_step e op c)) = sid"
      using or_null_truthy [of sid] by auto
    with Connect show ?thesis by simp
  next
    case (Event ev)
    with a socket_step_sessionId [of e ev c] show ?thesis by simp
  next
    case Disconnect
    with a show ?thesis by (simp add: disconnect_sessionId)
  qed (use a in simp_all)
qed

theorem stopSession_requires_session_id_witness:
  "stopSession example_env new_WSClient = (Inr False, [ConsoleWarn ''No session ID available for stop message''])
   \<and> fst (client_step example_env StopSession new_WSClient) = new_WSClient"
  using stopSession_requires_session_id [of new_WSClient example_env StopSession]
  by (simp add: new_WSClient_def)

subsection \<open>Connecting\<close>

lemma connect_live:
  "socket_live c \<Longrightarrow> connect e tok sid c = (c, [ConsoleLog ''WebSocket already connecting or connected''])"
  by (simp add: connect_def)

text \<open>
  C10. While the client's socket is connecting or open, \<open>connect\<close> with any token and
  session id creates no socket and changes no field of the client, the stored token and
  session id included; it only writes a line to the console.
\<close>

theorem connect_idempotent_while_live:
  "ws c = Some s \<Longrightarrow> readyState s = CONNECTING \<or> readyState s = OPEN \<Longrightarrow>
     connect e tok sid c = (c, [ConsoleLog ''WebSocket already connecting or connected''])"
  by (rule connect_live) (simp add: socket_live_def)

theorem connect_idempotent_while_live_witness:
  "connect example_env ''other'' (Some (JStr ''s2'')) open_client
     = (open_client, [ConsoleLog ''WebSocket already connecting or connected''])"
  by (rule connect_idempotent_while_live
            [where s = "\<lparr> url = WsUrl ''ws://localhost:8000'' ''tok'' None, readyState = OPEN \<rparr>"])
     (simp_all add: open_client_def new_WSClient_def)

section \<open>Properties of SpeakSession\<close>

subsection \<open>The example session\<close>

lemma ack_s1_fields:
  "ack_s1 \<noteq> JNull"
  "get_field ack_s1 ''type'' = Some (JStr ''ack'')"
  "get_field ack_s1 ''session_id'' = Some (JStr ''s1'')"
  "get_field ack_s1 ''max_duration'' = Some (JNum 2)"
  by (simp_all add: ack_s1_def)

lemma parse_ack: "json_parse example_env (show_json ack_s1) = Some ack_s1"
  by (simp add: example_env_def example_frames_def)

lemma session_recording_state:
  "fst (run example_props example_env session_recording init_component) = recording_state"
  by (simp add: session_recording_def parse_ack init_component_def recording_state_def recording_client_def
        stale_render_def example_props_def current_render_def
        handleStartSession_def setupWebSocket_def connect_def socket_live_def or_null_def
        new_WSClient_def socket_event_step_def set_readyState_def ws_onopen_def startHeartbeat_def
        session_onOpen_def start_timeout_def ws_onmessage_def handleMessage_def ack_s1_fields startSession_def
        session_onAck_def startTimer_def startAudioRecording_def startRecording_def
        max_duration_or_60_def media_granted_def Let_def
        example_env_def[THEN arg_cong, of websocket_ctor_throws] example_env_def[THEN arg_cong, of REACT_APP_WS_URL])

lemma run_append:
  "run p e (xs @ ys) s =
     (fst (run p e ys (fst (run p e xs s))),
      snd (run p e xs s) @ snd (run p e ys (fst (run p e xs s))))"
  by (induction xs arbitrary: s) (simp_all add: split_beta Let_def)

subsection \<open>The deadline\<close>

lemma handleStopSession_stale:
  assumes "\<not> r_isRecording r"
  shows "mediaRecorderRef (fst (handleStopSession e r s)) = mediaRecorderRef s"
    and "isRecording (fst (handleStopSession e r s)) = isRecording s"
    and "streamRef (fst (handleStopSession e r s)) = streamRef s"
    and "sessionState (fst (handleStopSession e r s)) = Processing"
  using assms by (simp_all add: handleStopSession_def Let_def split: option.splits)

lemma session_onAck_timer:
  "timeRemaining (fst (session_onAck r message s)) = max_duration_or_60 message"
  "intervals (fst (session_onAck r message s)) = intervals s @ [(nextTimerId s, r)]"
  by (simp_all add: session_onAck_def startTimer_def startAudioRecording_def startRecording_def)

lemma two_ticks:
  "run example_props example_env [Tick 1, Tick 1] recording_state
     = (recording_state\<lparr> sessionState := Processing, timeRemaining := 0, intervals := [] \<rparr>,
        [Client (Transmit (show_json (JObj [(''type'', JStr ''stop''), (''session_id'', JStr ''s1'')])))])"
  by (simp add: recording_state_def recording_client_def stale_render_def timer_tick_def
        handleStopSession_def stopSession_def sendMessage_def ws_send_def Let_def
        example_env_def[THEN arg_cong, of json_stringify] example_env_def[THEN arg_cong, of socket_send_throws])

lemma click_stop:
  "fst (step example_props example_env ClickStop recording_state)
     = recording_state\<lparr> sessionState := Processing, intervals := [], isRecording := False,
          mediaRecorderRef := Some RecorderInactive, streamRef := False \<rparr>"
  by (simp add: recording_state_def recording_client_def stale_render_def current_render_def
        handleStopSession_def stopRecording_def stopSession_def sendMessage_def ws_send_def Let_def)

text \<open>
  C1. What the code does on the timer's path. The ack handler sets the countdown to
  \<open>max_duration\<close>, or 60 when that is absent or 0, and starts a timer whose callback
  belongs to the render that started the session. A tick decrements the countdown while
  more than 1 remains, and otherwise calls that render's \<open>handleStopSession\<close> and sets the
  countdown to 0. That \<open>handleStopSession\<close> reads the \<open>isRecording\<close> of its own render:
  when it is false, the state becomes processing but the recorder, the stream and the
  live \<open>isRecording\<close> are left as they are. In the example session (acknowledged with
  \<open>max_duration = 2\<close>) the render that started the session has \<open>isRecording = false\<close>, so
  after two ticks the stop message is sent and the state is processing while the
  recorder is still recording; the stop button, which runs the closure of the current
  render, does stop it.
\<close>

theorem deadline_stop_skips_recorder:
  "timeRemaining (fst (session_onAck r message s)) = max_duration_or_60 message
   \<and> intervals (fst (session_onAck r message s)) = intervals s @ [(nextTimerId s, r)]
   \<and> (1 < timeRemaining s \<longrightarrow> timer_tick e r s = (s\<lparr> timeRemaining := timeRemaining s - 1 \<rparr>, []))
   \<and> (timeRemaining s \<le> 1 \<longrightarrow>
      timer_tick e r s = (fst (handleStopSession e r s)\<lparr> timeRemaining := 0 \<rparr>, snd (handleStopSession e r s)))
   \<and> (\<not> r_isRecording r \<longrightarrow>
      mediaRecorderRef (fst (handleStopSession e r s)) = mediaRecorderRef s
      \<and> isRecording (fst (handleStopSession e r s)) = isRecording s
      \<and> streamRef (fst (handleStopSession e r s)) = streamRef s
      \<and> sessionState (fst (handleStopSession e r s)) = Processing)
   \<and> fst (run example_props example_env session_recording init_component) = recording_state
   \<and> intervals recording_state = [(1, stale_render)] \<and> \<not> r_isRecording stale_render
   \<and> isRecording recording_state \<and> mediaRecorderRef recording_state = Some RecorderRecording
   \<and> run example_props example_env [Tick 1, Tick 1] recording_state
       = (recording_state\<lparr> sessionState := Processing, timeRemaining := 0, intervals := [] \<rparr>,
          [Client (Transmit (show_json (JObj [(''type'', JStr ''stop''), (''session_id'', JStr ''s1'')])))])
   \<and> fst (step example_props example_env ClickStop recording_state)
       = recording_state\<lparr> sessionState := Processing, intervals := [], isRecording := False,
            mediaRecorderRef := Some RecorderInactive, streamRef := False \<rparr>"
proof (intro conjI impI)
  assume "timeRemaining s \<le> 1"
  then show "timer_tick e r s = (fst (handleStopSession e r s)\<lparr> timeRemaining := 0 \<rparr>, snd (handleStopSession e r s))"
    by (simp add: timer_tick_def split_beta)
next
  assume "1 < timeRemaining s"
  then show "timer_tick e r s = (s\<lparr> timeRemaining := timeRemaining s - 1 \<rparr>, [])"
    by (simp add: timer_tick_def)
next
  show "fst (run example_props example_env session_recording init_component) = recording_state"
    by (rule session_recording_state)
next
  show "run example_props example_env [Tick 1, Tick 1] recording_state
       = (recording_state\<lparr> sessionState := Processing, timeRemaining := 0, intervals := [] \<rparr>,
          [Client (Transmit (show_json (JObj [(''type'', JStr ''stop''), (''session_id'', JStr ''s1'')])))])"
    by (rule two_ticks)
next
  show "fst (step example_props example_env ClickStop recording_state)
       = recording_state\<lparr> sessionState := Processing, intervals := [], isRecording := False,
            mediaRecorderRef := Some RecorderInactive, streamRef := False \<rparr>"
    by (rule click_stop)
qed (simp_all add: handleStopSession_stale session_onAck_timer recording_state_def stale_render_def)

theorem deadline_stop_skips_recorder_witness:
  "sessionState (fst (run example_props example_env (session_recording @ [Tick 1, Tick 1]) init_component)) = Processing
   \<and> mediaRecorderRef (fst (run example_props example_env (session_recording @ [Tick 1, Tick 1]) init_component))
       = Some RecorderRecording
   \<and> isRecording (fst (run example_props example_env (session_recording @ [Tick 1, Tick 1]) init_component))
   \<and> streamRef (fst (run example_props example_env (session_recording @ [Tick 1, Tick 1]) init_component))"
proof -
  note t = deadline_stop_skips_recorder [of stale_render ack_s1 recording_state example_env]
  from t have a: "fst (run example_props example_env session_recording init_component) = recording_state"
    by (elim conjE)
  from t have b: "run example_props example_env [Tick 1, Tick 1] recording_state
       = (recording_state\<lparr> sessionState := Processing, timeRemaining := 0, intervals := [] \<rparr>,
          [Client (Transmit (show_json (JObj [(''type'', JStr ''stop''), (''session_id'', JStr ''s1'')])))])"
    by (elim conjE)
  show ?thesis unfolding run_append a b by (simp add: recording_state_def)
qed

subsection \<open>Audio sequence numbers\<close>

lemma handleAudioData_stale:
  "r_sessionState r \<noteq> Recording \<Longrightarrow> handleAudioData e r b s = (s, [])"
  by (simp add: handleAudioData_def split: option.splits)

lemma handleAudioData_sequence:
  assumes "wsClientRef s = Some c" "r_sessionState r = Recording"
  shows "handleAudioData e r b s
           = (s\<lparr> sequenceNumber := r_sequenceNumber r + 1 \<rparr>,
              map Client (snd (sendAudioChunk e b (r_sequenceNumber r + 1) c)))"
  using assms by (simp add: handleAudioData_def Let_def)

text \<open>
  \<open>handleStartSession\<close> returns at once unless the state of its render is idle, and it is
  the only caller of \<open>setupWebSocket\<close>; so every closure that is ever installed belongs to
  an idle render. This holds in every state the component can reach.
\<close>

lemma run_callback_idle:
  "r_sessionState r = Idle \<Longrightarrow> handlersRender s = r \<Longrightarrow> closures_idle s \<Longrightarrow>
     closures_idle (fst (run_callback p r cb s)) \<and> handlersRender (fst (run_callback p r cb s)) = r"
  by (cases cb) (simp_all add: closures_idle_def session_onOpen_def session_onClose_def
        session_onError_def session_onAck_def startTimer_def startAudioRecording_def
        startRecording_def session_onInterim_def session_onProcessing_def session_onFinal_def
        Let_def split: option.splits)

lemma run_callbacks_idle:
  "r_sessionState r = Idle \<Longrightarrow> handlersRender s = r \<Longrightarrow> closures_idle s \<Longrightarrow>
     closures_idle (fst (run_callbacks p r cbs s)) \<and> handlersRender (fst (run_callbacks p r cbs s)) = r"
proof (induction cbs arbitrary: s)
  case Nil
  then show ?case by simp
next
  case (Cons cb cbs)
  from run_callback_idle [OF Cons.prems] Cons.IH [of "fst (run_callback p r cb s)"] Cons.prems(1)
  show ?case by (simp add: split_beta)
qed

lemma setupWebSocket_idle:
  assumes "r_sessionState r = Idle" "closures_idle s"
  shows "closures_idle (fst (setupWebSocket p e r s))"
proof (cases "auth_token p = None \<or> auth_token p = Some []")
  case True
  with assms(2) show ?thesis
    by (auto simp: setupWebSocket_def closures_idle_def)
next
  case False
  then obtain t where t: "auth_token p = Some t" "t \<noteq> []" by auto
  let ?c = "new_WSClient\<lparr> onOpen := True, onClose := True, onError := True,
                             onAck := True, onInterim := True, onProcessing := True,
                             onFinal := True \<rparr>"
  let ?s1 = "s\<lparr> wsClientRef := Some ?c, handlersRender := r,
                       connectionStatus := ''CONNECTING'', sessionState := Connecting \<rparr>"
  let ?s2 = "?s1\<lparr> wsClientRef := Some (fst (connect e t None ?c)) \<rparr>"
  have "closures_idle ?s2" "handlersRender ?s2 = r"
    using assms by (simp_all add: closures_idle_def)
  from run_callbacks_idle [OF assms(1) this(2) this(1)] t show ?thesis
    by (simp add: setupWebSocket_def Let_def split_beta)
qed

lemma handleStartSession_idle:
  "closures_idle s \<Longrightarrow> closures_idle (fst (handleStartSession p e r s))"
  using setupWebSocket_idle [of r s p e]
  by (simp add: handleStartSession_def split_beta closures_idle_def)

lemma stopRecording_closures:
  "handlersRender (fst (stopRecording r s)) = handlersRender s"
  "onDataAvailableRef (fst (stopRecording r s)) = onDataAvailableRef s"
  by (simp_all add: stopRecording_def Let_def)

lemma handleStopSession_idle:
  "closures_idle s \<Longrightarrow> closures_idle (fst (handleStopSession e r s))"
  by (simp add: handleStopSession_def Let_def split_beta closures_idle_def stopRecording_closures
        split: option.splits)

lemma timer_tick_idle: "closures_idle s \<Longrightarrow> closures_idle (fst (timer_tick e r s))"
  using handleStopSession_idle [of s e r]
  by (simp add: timer_tick_def Let_def split_beta closures_idle_def)

lemma socket_event_step_idle:
  assumes "closures_idle s"
  shows "closures_idle (fst (socket_event_step p e ev s))"
proof (cases "wsClientRef s")
  case None
  with assms show ?thesis by (simp add: socket_event_step_def)
next
  case (Some c)
  let ?s1 = "s\<lparr> wsClientRef := Some (fst (socket_step e ev c)) \<rparr>"
  have "closures_idle ?s1" "handlersRender ?s1 = handlersRender s" "r_sessionState (handlersRender s) = Idle"
    using assms by (simp_all add: closures_idle_def)
  from run_callbacks_idle [OF this(3) this(2) this(1)] Some show ?thesis
    by (simp add: socket_event_step_def split_beta)
qed

lemma audio_step_idle: "closures_idle s \<Longrightarrow> step p e (AudioData b) s = (s, [])"
  by (auto simp: closures_idle_def handleAudioData_def split: option.splits)

lemma step_idle: "closures_idle s \<Longrightarrow> closures_idle (fst (step p e ev s))"
proof (cases ev)
  case (Socket sev)
  assume "closures_idle s"
  with Socket show ?thesis by (simp add: socket_event_step_idle)
next
  case (Tick t)
  assume "closures_idle s"
  with Tick show ?thesis by (simp add: timer_tick_idle split: option.splits)
next
  case (AudioData b)
  assume "closures_idle s"
  with AudioData show ?thesis by (simp only: audio_step_idle fst_conv)
qed (simp_all add: handleStartSession_idle handleStopSession_idle,
     simp_all add: closures_idle_def start_timeout_def media_granted_def handleAudioData_def Let_def
       split: option.splits)

lemma run_idle: "closures_idle s \<Longrightarrow> closures_idle (fst (run p e evs s))"
proof (induction evs arbitrary: s)
  case Nil
  then show ?case by simp
next
  case (Cons ev evs)
  from Cons.IH [OF step_idle [OF Cons.prems, of p e ev]] show ?case by (simp add: split_beta)
qed

lemma init_idle: "closures_idle init_component"
  by (simp add: closures_idle_def init_component_def)

text \<open>
  C2. What the code does with sequence numbers. A \<open>handleAudioData\<close> closure reads the
  \<open>sessionState\<close> and \<open>sequenceNumber\<close> of the render that created it. When that
  \<open>sessionState\<close> is not recording it sends nothing and changes nothing. When it is,
  every chunk is sent with the sequence number \<open>sequenceNumber + 1\<close> of that render: the
  second chunk has the same number as the first. In the example session the closure
  passed to the recorder belongs to the render that started the session, whose state
  is idle: two chunks from the recorder send nothing and leave the counter at 0. The
  same holds in every state the component reaches from its initial state, by any
  events: a chunk from the recorder sends nothing and changes nothing.
\<close>

theorem audio_sequence_is_closure_constant:
  "(r_sessionState r \<noteq> Recording \<longrightarrow> handleAudioData e r b1 s = (s, []))
   \<and> (wsClientRef s = Some c \<and> r_sessionState r = Recording \<longrightarrow>
        snd (handleAudioData e r b1 s)
          = map Client (snd (sendAudioChunk e b1 (r_sequenceNumber r + 1) c))
        \<and> snd (handleAudioData e r b2 (fst (handleAudioData e r b1 s)))
          = map Client (snd (sendAudioChunk e b2 (r_sequenceNumber r + 1) c)))
   \<and> fst (run example_props example_env session_recording init_component) = recording_state
   \<and> onDataAvailableRef recording_state = Some stale_render
   \<and> r_sessionState stale_render = Idle
   \<and> run example_props example_env [AudioData ''QUFB'', AudioData ''QkJC''] recording_state
       = (recording_state, [])
   \<and> step p e (AudioData b) (fst (run p e evs init_component))
       = (fst (run p e evs init_component), [])"
proof (intro conjI impI)
  show "step p e (AudioData b) (fst (run p e evs init_component))
       = (fst (run p e evs init_component), [])"
    by (rule audio_step_idle [OF run_idle [OF init_idle]])
next
  assume "r_sessionState r \<noteq> Recording"
  then show "handleAudioData e r b1 s = (s, [])" by (rule handleAudioData_stale)
next
  assume a: "wsClientRef s = Some c \<and> r_sessionState r = Recording"
  then show "snd (handleAudioData e r b1 s)
          = map Client (snd (sendAudioChunk e b1 (r_sequenceNumber r + 1) c))"
    by (simp add: handleAudioData_sequence)
  from a have "wsClientRef (fst (handleAudioData e r b1 s)) = Some c"
    by (simp add: handleAudioData_sequence)
  with a show "snd (handleAudioData e r b2 (fst (handleAudioData e r b1 s)))
          = map Client (snd (sendAudioChunk e b2 (r_sequenceNumber r + 1) c))"
    by (simp add: handleAudioData_sequence [where s = "fst (handleAudioData e r b1 s)"])
next
  show "fst (run example_props example_env session_recording init_component) = recording_state"
    by (rule session_recording_state)
next
  show "run example_props example_env [AudioData ''QUFB'', AudioData ''QkJC''] recording_state
       = (recording_state, [])"
    by (simp add: handleAudioData_stale recording_state_def stale_render_def)
qed (simp_all add: recording_state_def stale_render_def)

theorem audio_sequence_is_closure_constant_witness:
  "sent (snd (run example_props example_env (session_recording @ [AudioData ''QUFB'', AudioData ''QkJC'']) init_component))
     = sent (snd (run example_props example_env session_recording init_component))
   \<and> sequenceNumber (fst (run example_props example_env
         (session_recording @ [AudioData ''QUFB'', AudioData ''QkJC'']) init_component)) = 0"
proof -
  note t = audio_sequence_is_closure_constant
             [where r = stale_render and e = example_env and ?b1.0 = "''QUFB''" and s = recording_state
                and c = recording_client and ?b2.0 = "''QkJC''" and p = example_props
                and b = "''QUFB''" and evs = session_recording]
  from t have a: "fst (run example_props example_env session_recording init_component) = recording_state"
    by (elim conjE)
  from t have b: "run example_props example_env [AudioData ''QUFB'', AudioData ''QkJC''] recording_state
       = (recording_state, [])"
    by (elim conjE)
  show ?thesis unfolding run_append a b by (simp add: recording_state_def)
qed

subsection \<open>The final result\<close>

lemma calls_append [simp]: "calls (xs @ ys) = calls xs @ calls ys"
  by (induction xs rule: calls.induct) auto

lemma handlers_keep_result:
  "finalResult (session_onOpen s) = finalResult s"
  "finalResult (session_onClose r s) = finalResult s"
  "finalResult (fst (session_onError p err s)) = finalResult s"
  "finalResult (fst (session_onAck r m s)) = finalResult s"
  "finalResult (session_onInterim m s) = finalResult s"
  "finalResult (session_onProcessing s) = finalResult s"
  by (simp_all add: session_onOpen_def session_onClose_def session_onError_def session_onAck_def
        startTimer_def startAudioRecording_def startRecording_def session_onInterim_def
        session_onProcessing_def Let_def)

lemma session_onFinal_result:
  "finalResult (fst (session_onFinal p m s)) = Some m"
  "sessionState (fst (session_onFinal p m s)) = Completed"
  by (simp_all add: session_onFinal_def)

lemma run_callbacks_keep_result:
  "\<forall>m. CbFinal m \<notin> set cbs \<Longrightarrow> finalResult (fst (run_callbacks p r cbs s)) = finalResult s"
proof (induction cbs arbitrary: s)
  case Nil
  show ?case by simp
next
  case (Cons cb cbs)
  from Cons.prems have nf: "\<forall>m. cb \<noteq> CbFinal m" by auto
  then have "finalResult (fst (run_callback p r cb s)) = finalResult s"
    by (cases cb) (simp_all add: handlers_keep_result)
  with Cons show ?case by (simp add: split_beta)
qed

lemma run_callbacks_append:
  "fst (run_callbacks p r (xs @ ys) s) = fst (run_callbacks p r ys (fst (run_callbacks p r xs s)))"
  by (induction xs arbitrary: s) (simp_all add: split_beta)

lemma run_callbacks_final_last:
  "finalResult (fst (run_callbacks p r (cbs @ [CbFinal m]) s)) = Some m
   \<and> sessionState (fst (run_callbacks p r (cbs @ [CbFinal m]) s)) = Completed"
  by (simp add: run_callbacks_append split_beta session_onFinal_result)

lemma handleMessage_calls_final:
  "m \<noteq> JNull \<Longrightarrow> get_field m ''type'' = Some (JStr ''final'') \<Longrightarrow>
     calls (snd (snd (handleMessage m c)))
       = (if onMessage c then [CbMessage m] else []) @ (if onFinal c then [CbFinal m] else [])"
  by (simp add: handleMessage_def Let_def)

lemma handleMessage_calls_other:
  "m = JNull \<or> get_field m ''type'' \<noteq> Some (JStr ''final'') \<Longrightarrow>
     CbFinal x \<notin> set (calls (snd (snd (handleMessage m c))))"
  by (auto simp: handleMessage_def Let_def)

lemma ws_onmessage_calls:
  "calls (snd (ws_onmessage e data c)) =
     (case json_parse e data of None \<Rightarrow> [] | Some m \<Rightarrow> calls (snd (snd (handleMessage m c))))"
  by (simp add: ws_onmessage_def split: option.splits prod.splits)

lemma sendMessage_calls: "calls (snd (sendMessage e m c)) = []"
  by (simp add: sendMessage_def split: sum.splits)

lemma connect_calls: "CbFinal x \<notin> set (calls (snd (connect e tok sid c)))"
  by (simp add: connect_def Let_def)

lemma socket_step_calls_final:
  assumes "CbFinal x \<in> set (calls (snd (socket_step e ev c)))"
  shows "\<exists>data. ev = SockMessage data \<and> json_parse e data = Some x
           \<and> get_field x ''type'' = Some (JStr ''final'')
           \<and> calls (snd (socket_step e ev c)) = (if onMessage c then [CbMessage x] else []) @ [CbFinal x]"
proof (cases ev)
  case (SockMessage data)
  with assms obtain m where m: "json_parse e data = Some m"
      "CbFinal x \<in> set (calls (snd (snd (handleMessage m c))))"
    by (cases "json_parse e data") (auto simp: ws_onmessage_calls)
  then have f: "m \<noteq> JNull" "get_field m ''type'' = Some (JStr ''final'')"
    using handleMessage_calls_other [of m x c] by auto
  with m(2) have "x = m" "onFinal c"
    by (auto simp: handleMessage_calls_final split: if_splits)
  with m f SockMessage show ?thesis
    by (simp add: ws_onmessage_calls handleMessage_calls_final)
qed (use assms in \<open>auto simp: ws_onopen_def ws_onclose_def ws_onerror_def startHeartbeat_def
       stopHeartbeat_def attemptReconnect_def reconnect_timeout_def connect_calls Let_def
       heartbeat_tick_def ping_def sendMessage_calls
       split: if_splits option.splits\<close>)

lemma socket_event_step_result:
  assumes "finalResult (fst (socket_event_step p e ev s)) \<noteq> finalResult s"
  shows "\<exists>data m. ev = SockMessage data \<and> json_parse e data = Some m
           \<and> get_field m ''type'' = Some (JStr ''final'')
           \<and> finalResult (fst (socket_event_step p e ev s)) = Some m
           \<and> sessionState (fst (socket_event_step p e ev s)) = Completed"
proof (cases "wsClientRef s")
  case None
  with assms show ?thesis by (simp add: socket_event_step_def)
next
  case (Some c)
  let ?cbs = "calls (snd (socket_step e ev c))"
  let ?s1 = "s\<lparr> wsClientRef := Some (fst (socket_step e ev c)) \<rparr>"
  have st: "fst (socket_event_step p e ev s) = fst (run_callbacks p (handlersRender s) ?cbs ?s1)"
    using Some by (simp add: socket_event_step_def split_beta)
  have "\<exists>x. CbFinal x \<in> set ?cbs"
  proof (rule ccontr)
    assume "\<not> (\<exists>x. CbFinal x \<in> set ?cbs)"
    then have "finalResult (fst (run_callbacks p (handlersRender s) ?cbs ?s1)) = finalResult ?s1"
      by (intro run_callbacks_keep_result) simp
    with assms st show False by simp
  qed
  then obtain x where "CbFinal x \<in> set ?cbs" ..
  from socket_step_calls_final [OF this] obtain data where d:
    "ev = SockMessage data" "json_parse e data = Some x" "get_field x ''type'' = Some (JStr ''final'')"
    "?cbs = (if onMessage c then [CbMessage x] else []) @ [CbFinal x]"
    by blast
  show ?thesis
    using d(1-3) run_callbacks_final_last [of p "handlersRender s" "if onMessage c then [CbMessage x] else []" x ?s1]
    unfolding st d(4) by blast
qed

lemma setupWebSocket_result: "finalResult (fst (setupWebSocket p e r s)) = finalResult s"
  by (simp add: setupWebSocket_def Let_def split_beta run_callbacks_keep_result connect_calls
        split: option.splits)

lemma handleStartSession_result: "finalResult (fst (handleStartSession p e r s)) = finalResult s"
  by (simp add: handleStartSession_def split_beta setupWebSocket_result)

lemma stopRecording_result: "finalResult (fst (stopRecording r s)) = finalResult s"
  by (simp add: stopRecording_def Let_def)

lemma handleStopSession_result: "finalResult (fst (handleStopSession e r s)) = finalResult s"
  by (simp add: handleStopSession_def Let_def split_beta stopRecording_result split: option.splits)

lemma timer_tick_result: "finalResult (fst (timer_tick e r s)) = finalResult s"
  by (simp add: timer_tick_def Let_def split_beta handleStopSession_result)

lemma handleAudioData_result: "finalResult (fst (handleAudioData e r b s)) = finalResult s"
  by (simp add: handleAudioData_def Let_def split: option.splits)

lemma step_result:
  assumes "finalResult (fst (step p e ev s)) \<noteq> finalResult s"
  shows "(ev = ClickNewSession \<and> finalResult (fst (step p e ev s)) = None)
      \<or> (\<exists>data m. ev = Socket (SockMessage data) \<and> json_parse e data = Some m
             \<and> get_field m ''type'' = Some (JStr ''final'')
             \<and> finalResult (fst (step p e ev s)) = Some m
             \<and> sessionState (fst (step p e ev s)) = Completed)"
proof (cases ev)
  case (Socket sev)
  with assms socket_event_step_result [of p e sev s] show ?thesis by simp
next
  case ClickNewSession
  with assms show ?thesis by (simp split: if_splits)
qed (use assms in \<open>simp_all add: handleStartSession_result start_timeout_def timer_tick_result
       handleStopSession_result media_granted_def handleAudioData_result
       split: if_splits option.splits\<close>)

lemma final_s1_fields:
  "final_s1 \<noteq> JNull"
  "get_field final_s1 ''type'' = Some (JStr ''final'')"
  by (simp_all add: final_s1_def)

lemma parse_final: "json_parse example_env (show_json final_s1) = Some final_s1"
  by (simp add: example_env_def example_frames_def ack_s1_def final_s1_def quote_def)

lemma final_then_error:
  "fst (run example_props example_env
          [ClickStop, Socket (SockMessage (show_json final_s1)), Socket SockError] recording_state)
     = recording_state\<lparr> sessionState := Error, finalResult := Some final_s1, intervals := [],
          isRecording := False, mediaRecorderRef := Some RecorderInactive, streamRef := False \<rparr>"
  by (simp add: parse_final final_s1_fields recording_state_def recording_client_def stale_render_def
        current_render_def example_props_def
        handleStopSession_def stopRecording_def stopSession_def sendMessage_def ws_send_def
        socket_event_step_def ws_onmessage_def handleMessage_def session_onFinal_def
        ws_onerror_def session_onError_def Let_def)

text \<open>
  C3, as the claim states it, fails: after the final message of a session has been
  stored, an error event of the socket leaves the stored result with the state error.
\<close>

theorem result_with_error_state:
  "finalResult (fst (run example_props example_env
       (session_recording @ [ClickStop, Socket (SockMessage (show_json final_s1)), Socket SockError])
       init_component)) = Some final_s1
   \<and> sessionState (fst (run example_props example_env
       (session_recording @ [ClickStop, Socket (SockMessage (show_json final_s1)), Socket SockError])
       init_component)) = Error"
  unfolding run_append session_recording_state fst_conv final_then_error by simp

text \<open>
  C3, amended. A step of the component changes the stored result only when it is a
  final message, which stores the message and sets the state to completed, or the click
  on Start New Session, which clears it. The handler of a final message stores its
  message and sets the state to completed, each time it runs. The interim handler
  changes neither the result nor the state; the processing and error handlers keep the
  result and set the state to processing and to error, whatever it was; the close
  handler keeps the result. The result is shown exactly when it is stored and the
  state is completed.
\<close>

theorem result_written_by_final_only:
  "(finalResult (fst (step p e ev s)) \<noteq> finalResult s \<longrightarrow>
      (ev = ClickNewSession \<and> finalResult (fst (step p e ev s)) = None)
      \<or> (\<exists>data m. ev = Socket (SockMessage data) \<and> json_parse e data = Some m
             \<and> get_field m ''type'' = Some (JStr ''final'')
             \<and> finalResult (fst (step p e ev s)) = Some m
             \<and> sessionState (fst (step p e ev s)) = Completed))
   \<and> finalResult (fst (session_onFinal p m s)) = Some m
   \<and> sessionState (fst (session_onFinal p m s)) = Completed
   \<and> finalResult (session_onInterim m s) = finalResult s
   \<and> sessionState (session_onInterim m s) = sessionState s
   \<and> finalResult (session_onProcessing s) = finalResult s
   \<and> sessionState (session_onProcessing s) = Processing
   \<and> finalResult (fst (session_onError p err s)) = finalResult s
   \<and> sessionState (fst (session_onError p err s)) = Error
   \<and> finalResult (session_onClose r s) = finalResult s
   \<and> results_shown s = (finalResult s \<noteq> None \<and> sessionState s = Completed)"
  using step_result [of p e ev s]
  by (simp add: session_onFinal_result handlers_keep_result results_shown_def
        session_onInterim_def session_onProcessing_def session_onError_def)

lemma final_step:
  "fst (step example_props example_env (Socket (SockMessage (show_json final_s1))) recording_state)
     = recording_state\<lparr> sessionState := Completed, finalResult := Some final_s1 \<rparr>"
  by (simp add: parse_final final_s1_fields recording_state_def recording_client_def stale_render_def
        example_props_def socket_event_step_def ws_onmessage_def handleMessage_def session_onFinal_def
        Let_def)

theorem result_written_by_final_only_witness:
  "finalResult (fst (step example_props example_env (Socket (SockMessage (show_json final_s1))) recording_state))
     = Some final_s1
   \<and> sessionState (fst (step example_props example_env (Socket (SockMessage (show_json final_s1))) recording_state))
     = Completed
   \<and> results_shown (fst (step example_props example_env (Socket (SockMessage (show_json final_s1))) recording_state))"
  using result_written_by_final_only
          [where p = example_props and e = example_env
             and ev = "Socket (SockMessage (show_json final_s1))" and s = recording_state]
        result_written_by_final_only
          [where s = "fst (step example_props example_env (Socket (SockMessage (show_json final_s1))) recording_state)"]
  unfolding final_step by (simp add: recording_state_def)

end
